theory Spec2Isabelle
  imports Complex_Main
begin

section \<open>Curvature tensors of einsteinpy.symbolic: the data model\<close>

text \<open>
  The modules \<open>ricci.py\<close> and \<open>weyl.py\<close> orchestrate calls into a symbolic engine. An
  expression of that engine is a value of the type variable \<open>'e\<close>; the arithmetic the
  code performs on expressions (\<open>+\<close>, \<open>-\<close>, \<open>*\<close>, \<open>/\<close>, and the coercion of a Python
  integer) is that of a field of characteristic 0, so that equality of two expressions
  is equality "after simplification".

  A sympy array, or the nested list it is built from, is a tree: an expression at rank
  0, a list of arrays above.
\<close>

datatype 'e ndarr = Expr 'e | Array "'e ndarr list"

fun shape :: "'e ndarr \<Rightarrow> nat list" where
  "shape (Expr e) = []"
| "shape (Array []) = [0]"
| "shape (Array (x # xs)) = Suc (length xs) # shape x"


text \<open>\<open>np.zeros(shape, dtype=int)\<close>, read as a sympy array.\<close>

fun zeros :: "nat list \<Rightarrow> ('e::zero) ndarr" where
  "zeros [] = Expr 0"
| "zeros (d # ds) = Array (replicate d (zeros ds))"

text \<open>All the entries of an array, in row-major order.\<close>

fun entries :: "'e ndarr \<Rightarrow> 'e list" where
  "entries (Expr e) = [e]"
| "entries (Array xs) = concat (map entries xs)"

text \<open>
  The \<open>syms\<close> argument of the constructors is any Python object; the constructors ask
  whether it is a list or a tuple and take its length.
\<close>

datatype syms = SymList "string list" | SymTuple "string list" | NotSequence

fun isinstance_list_tuple :: "syms \<Rightarrow> bool" where
  "isinstance_list_tuple (SymList xs) = True"
| "isinstance_list_tuple (SymTuple xs) = True"
| "isinstance_list_tuple NotSequence = False"

fun len :: "syms \<Rightarrow> nat" where
  "len (SymList xs) = length xs"
| "len (SymTuple xs) = length xs"
| "len NotSequence = 0"

text \<open>
  The exceptions. \<open>TypeError\<close>, \<open>ValueError\<close> and \<open>Exception\<close> are raised by the two
  modules themselves, with the message of the \<open>raise\<close> statement; \<open>AttributeError\<close> is
  what Python raises when a method is looked up on a class that does not define it;
  \<open>IndexError\<close> is the failure of a subscript on a Python list.
  \<open>Propagated\<close> is an exception that a collaborator (the \<open>Tensor\<close> base class, the metric,
  Christoffel and Riemann classes, \<open>_change_config\<close>, sympy) raised and that passes
  through unchanged.
\<close>

datatype error =
    TypeError string
  | ValueError string
  | Exception string
  | AttributeError string
  | IndexError string
  | Propagated string

text \<open>A call into a collaborator: its exception propagates.\<close>

definition collab :: "string + 'a \<Rightarrow> error + 'a" where
  "collab r = (case r of Inl msg \<Rightarrow> Inl (Propagated msg) | Inr x \<Rightarrow> Inr x)"

text \<open>Sequencing of two steps: the first exception ends the call.\<close>

definition and_then :: "error + 'a \<Rightarrow> ('a \<Rightarrow> error + 'b) \<Rightarrow> error + 'b" where
  "and_then r f = (case r of Inl e \<Rightarrow> Inl e | Inr x \<Rightarrow> f x)"

text \<open>
  The objects. A \<open>MetricTensor\<close> (defined outside the two modules) is read through its
  attributes \<open>arr\<close> (\<open>tensor()\<close>), \<open>config\<close>, \<open>syms\<close> and \<open>dims\<close>. A \<open>RicciTensor\<close>, a
  \<open>WeylTensor\<close> and a \<open>RiemannCurvatureTensor\<close> carry the same attributes and, in
  addition, \<open>_order\<close> and \<open>_parent_metric\<close>.
\<close>

record 'e MetricTensor =
  arr :: "'e ndarr"
  config :: string
  syms :: syms
  dims :: nat

record 'e Tensor = "'e MetricTensor" +
  order :: nat
  parent_metric :: "'e MetricTensor option"

type_synonym 'e RicciTensor = "'e Tensor"
type_synonym 'e WeylTensor = "'e Tensor"
type_synonym 'e RiemannCurvatureTensor = "'e Tensor"

record 'e RicciScalar =
  rs_order :: nat
  rs_parent_metric :: "'e MetricTensor option"
  expr :: "'e ndarr"
  rs_syms :: syms
  rs_dims :: nat

text \<open>
  The collaborators, as parameters. None of them is defined in the two modules.
  \<^item> \<open>Tensor_init arr config\<close>: the checks of the base constructor
    \<open>Tensor.__init__(arr, config=config)\<close>; \<open>None\<close> when it accepts, the exception
    otherwise.
  \<^item> \<open>change_config_util t metric newconfig\<close>: \<open>_change_config\<close>, the index raising and
    lowering routine; it returns the new array.
  \<^item> \<open>tensorcontraction a (i, j)\<close> and \<open>simplify\<close>: the sympy functions.
  \<^item> \<open>Christoffel_from_metric\<close>, \<open>Riemann_from_christoffels\<close>, \<open>Riemann_from_metric\<close>,
    \<open>Riemann_change_config\<close> and \<open>Metric_inv\<close>: the class methods
    \<open>ChristoffelSymbols.from_metric\<close>, \<open>RiemannCurvatureTensor.from_christoffels\<close>,
    \<open>RiemannCurvatureTensor.from_metric\<close>, \<open>RiemannCurvatureTensor.change_config\<close> and
    \<open>MetricTensor.inv\<close>. Christoffel symbols are values of the type variable \<open>'c\<close>.
\<close>

record ('e, 'c) engine =
  Tensor_init :: "'e ndarr \<Rightarrow> string \<Rightarrow> string option"
  change_config_util :: "'e Tensor \<Rightarrow> 'e MetricTensor \<Rightarrow> string \<Rightarrow> string + 'e ndarr"
  tensorcontraction :: "'e ndarr \<Rightarrow> nat \<times> nat \<Rightarrow> string + 'e ndarr"
  simplify :: "'e ndarr \<Rightarrow> 'e ndarr"
  Christoffel_from_metric :: "'e MetricTensor \<Rightarrow> string + 'c"
  Riemann_from_christoffels :: "'c \<Rightarrow> 'e MetricTensor option \<Rightarrow> string + 'e RiemannCurvatureTensor"
  Riemann_from_metric :: "'e MetricTensor \<Rightarrow> string + 'e RiemannCurvatureTensor"
  Riemann_change_config ::
    "'e RiemannCurvatureTensor \<Rightarrow> string \<Rightarrow> 'e MetricTensor option \<Rightarrow> string + 'e RiemannCurvatureTensor"
  Metric_inv :: "'e MetricTensor \<Rightarrow> string + 'e MetricTensor"


section \<open>ricci.py\<close>

subsection \<open>RicciTensor\<close>

text \<open>
  \<open>RicciTensor.__init__(arr, syms, config="ll", parent_metric=None)\<close>: the base
  constructor first, then the check of \<open>syms\<close>, then the check of the length of \<open>config\<close>.
\<close>

definition RicciTensor_init ::
  "('e, 'c) engine \<Rightarrow> 'e ndarr \<Rightarrow> syms \<Rightarrow> string \<Rightarrow> 'e MetricTensor option \<Rightarrow> error + 'e RicciTensor"
where
  "RicciTensor_init E a s cfg pm =
     (case Tensor_init E a cfg of
        Some msg \<Rightarrow> Inl (Propagated msg)
      | None \<Rightarrow>
          if isinstance_list_tuple s then
            (if \<not> length cfg = 2 then Inl (ValueError ''config should be of length 2'')
             else Inr \<lparr>arr = a, config = cfg, syms = s, dims = len s,
                       order = 2, parent_metric = pm\<rparr>)
          else Inl (TypeError ''syms should be a list or tuple''))"

text \<open>
  \<open>RicciTensor.change_config(newconfig="ul", metric=None)\<close>: the metric is the argument,
  else the stored parent metric; with neither the call raises \<open>Exception\<close>.
\<close>

definition parent_metric_not_found :: string where
  "parent_metric_not_found = ''Parent Metric not found, can't do configuration change''"

definition RicciTensor_change_config ::
  "('e, 'c) engine \<Rightarrow> 'e RicciTensor \<Rightarrow> string \<Rightarrow> 'e MetricTensor option \<Rightarrow> error + 'e RicciTensor"
where
  "RicciTensor_change_config E self newconfig metric =
     (let metric = (case metric of None \<Rightarrow> parent_metric self | Some m \<Rightarrow> Some m) in
      case metric of
        None \<Rightarrow> Inl (Exception parent_metric_not_found)
      | Some m \<Rightarrow>
          and_then (collab (change_config_util E self m newconfig))
            (\<lambda>new_tensor. RicciTensor_init E new_tensor (syms self) newconfig (Some m)))"

text \<open>
  \<open>RicciTensor.from_riemann(riemann, parent_metric=None)\<close>. The Riemann tensor is
  rebound to its "ulll" form before its parent metric, array and symbols are read.
\<close>

definition RicciTensor_from_riemann ::
  "('e, 'c) engine \<Rightarrow> 'e RiemannCurvatureTensor \<Rightarrow> 'e MetricTensor option \<Rightarrow> error + 'e RicciTensor"
where
  "RicciTensor_from_riemann E riemann pm =
     and_then
       (if \<not> config riemann = ''ulll''
        then collab (Riemann_change_config E riemann ''ulll'' pm)
        else Inr riemann)
       (\<lambda>riemann.
          let pm = (case pm of None \<Rightarrow> parent_metric riemann | Some m \<Rightarrow> Some m) in
          and_then (collab (tensorcontraction E (arr riemann) (0, 2)))
            (\<lambda>contracted. RicciTensor_init E contracted (syms riemann) ''ll'' pm))"

text \<open>
  \<open>RicciTensor.from_christoffels(chris, parent_metric=None)\<close>: the parent metric goes to
  the Riemann tensor; \<open>from_riemann\<close> is called without one.
\<close>

definition RicciTensor_from_christoffels ::
  "('e, 'c) engine \<Rightarrow> 'c \<Rightarrow> 'e MetricTensor option \<Rightarrow> error + 'e RicciTensor"
where
  "RicciTensor_from_christoffels E chris pm =
     and_then (collab (Riemann_from_christoffels E chris pm))
       (\<lambda>rt. RicciTensor_from_riemann E rt None)"

definition RicciTensor_from_metric ::
  "('e, 'c) engine \<Rightarrow> 'e MetricTensor \<Rightarrow> error + 'e RicciTensor"
where
  "RicciTensor_from_metric E metric =
     and_then (collab (Christoffel_from_metric E metric))
       (\<lambda>ch. RicciTensor_from_christoffels E ch None)"


subsection \<open>RicciScalar\<close>

text \<open>\<open>RicciScalar.__init__(expression, syms, parent_metric=None)\<close>.\<close>

definition RicciScalar_init ::
  "'e ndarr \<Rightarrow> syms \<Rightarrow> 'e MetricTensor option \<Rightarrow> error + 'e RicciScalar"
where
  "RicciScalar_init expression s pm =
     (if isinstance_list_tuple s then
        Inr \<lparr>rs_order = 0, rs_parent_metric = pm, expr = expression,
             rs_syms = s, rs_dims = len s\<rparr>
      else Inl (TypeError ''syms should be a list or tuple''))"

text \<open>\<open>RicciScalar.from_riccitensor(riccitensor, parent_metric=None)\<close>.\<close>

definition RicciScalar_from_riccitensor ::
  "('e, 'c) engine \<Rightarrow> 'e RicciTensor \<Rightarrow> 'e MetricTensor option \<Rightarrow> error + 'e RicciScalar"
where
  "RicciScalar_from_riccitensor E riccitensor pm =
     and_then
       (if \<not> config riccitensor = ''ul''
        then RicciTensor_change_config E riccitensor ''ul'' pm
        else Inr riccitensor)
       (\<lambda>riccitensor.
          let pm = (case pm of None \<Rightarrow> parent_metric riccitensor | Some m \<Rightarrow> Some m) in
          and_then (collab (tensorcontraction E (arr riccitensor) (0, 1)))
            (\<lambda>ricci_scalar. RicciScalar_init ricci_scalar (syms riccitensor) pm))"

definition RicciScalar_from_riemann ::
  "('e, 'c) engine \<Rightarrow> 'e RiemannCurvatureTensor \<Rightarrow> 'e MetricTensor option \<Rightarrow> error + 'e RicciScalar"
where
  "RicciScalar_from_riemann E riemann pm =
     and_then (RicciTensor_from_riemann E riemann pm)
       (\<lambda>cg. RicciScalar_from_riccitensor E cg None)"

definition RicciScalar_from_christoffels ::
  "('e, 'c) engine \<Rightarrow> 'c \<Rightarrow> 'e MetricTensor option \<Rightarrow> error + 'e RicciScalar"
where
  "RicciScalar_from_christoffels E chris pm =
     and_then (collab (Riemann_from_christoffels E chris pm))
       (\<lambda>rt. RicciScalar_from_riemann E rt None)"

definition RicciScalar_from_metric ::
  "('e, 'c) engine \<Rightarrow> 'e MetricTensor \<Rightarrow> error + 'e RicciScalar"
where
  "RicciScalar_from_metric E metric =
     and_then (collab (Christoffel_from_metric E metric))
       (\<lambda>ch. RicciScalar_from_christoffels E ch None)"


section \<open>weyl.py\<close>

text \<open>\<open>WeylTensor.__init__(arr, syms, config="ulll", parent_metric=None)\<close>.\<close>

definition WeylTensor_init ::
  "('e, 'c) engine \<Rightarrow> 'e ndarr \<Rightarrow> syms \<Rightarrow> string \<Rightarrow> 'e MetricTensor option \<Rightarrow> error + 'e WeylTensor"
where
  "WeylTensor_init E a s cfg pm =
     (case Tensor_init E a cfg of
        Some msg \<Rightarrow> Inl (Propagated msg)
      | None \<Rightarrow>
          if isinstance_list_tuple s then
            (if \<not> length cfg = 4 then Inl (ValueError ''config should be of length 4'')
             else Inr \<lparr>arr = a, config = cfg, syms = s, dims = len s,
                       order = 4, parent_metric = pm\<rparr>)
          else Inl (TypeError ''syms should be a list or tuple''))"

text \<open>\<open>WeylTensor.change_config(newconfig="llll", metric=None)\<close>.\<close>

definition WeylTensor_change_config ::
  "('e, 'c) engine \<Rightarrow> 'e WeylTensor \<Rightarrow> string \<Rightarrow> 'e MetricTensor option \<Rightarrow> error + 'e WeylTensor"
where
  "WeylTensor_change_config E self newconfig metric =
     (let metric = (case metric of None \<Rightarrow> parent_metric self | Some m \<Rightarrow> Some m) in
      case metric of
        None \<Rightarrow> Inl (Exception parent_metric_not_found)
      | Some m \<Rightarrow>
          and_then (collab (change_config_util E self m newconfig))
            (\<lambda>new_tensor. WeylTensor_init E new_tensor (syms self) newconfig (Some m)))"

subsection \<open>The components read by \<open>WeylTensor.from_metric\<close>\<close>

text \<open>
  Modelled from the spec: \<open>Tensor.__getitem__\<close>, which the source uses as
  \<open>t_ricci[i, m]\<close>, \<open>g[k, l]\<close> and \<open>t_riemann_cov[i, k, l, m]\<close> and which is defined with the
  \<open>Tensor\<close> base class, outside the two modules. The spec writes these as the components
  \<open>Ric[i,m]\<close>, \<open>g[k,l]\<close>, \<open>R[i,k,l,m]\<close> of the tensor: the entry of the array at the index
  tuple. An index out of range, or an index tuple that does not lead to an expression,
  is a failure of the collaborator.
\<close>

fun getitem :: "'e ndarr \<Rightarrow> nat list \<Rightarrow> string + 'e" where
  "getitem (Expr e) [] = Inr e"
| "getitem (Expr e) (i # is) = Inl ''IndexError''"
| "getitem (Array xs) [] = Inl ''TypeError''"
| "getitem (Array xs) (i # is) =
     (if i < length xs then getitem (xs ! i) is else Inl ''IndexError'')"

text \<open>
  \<open>r_scalar.expr\<close> enters the formula as an expression; an array in its place is a
  failure of the arithmetic of the engine.
\<close>

fun as_expr :: "'e ndarr \<Rightarrow> string + 'e" where
  "as_expr (Expr e) = Inr e"
| "as_expr (Array xs) = Inl ''TypeError''"

text \<open>
  The right-hand side of the assignment to \<open>C[i][k][l][m]\<close>, the subscripts evaluated in
  the order of the source. \<open>dims - 2\<close> and \<open>(dims - 1) * (dims - 2)\<close> are Python integers.
\<close>

definition Weyl_component ::
  "'e ndarr \<Rightarrow> 'e ndarr \<Rightarrow> 'e ndarr \<Rightarrow> 'e ndarr \<Rightarrow> nat \<Rightarrow> nat \<Rightarrow> nat \<Rightarrow> nat \<Rightarrow> nat \<Rightarrow> error + ('e::field_char_0)"
where
  "Weyl_component t_riemann_cov t_ricci g r_scalar_expr dims' i k l m =
     and_then (collab (getitem t_riemann_cov [i, k, l, m])) (\<lambda>R_iklm.
     and_then (collab (getitem t_ricci [i, m])) (\<lambda>Ric_im.
     and_then (collab (getitem g [k, l])) (\<lambda>g_kl.
     and_then (collab (getitem t_ricci [i, l])) (\<lambda>Ric_il.
     and_then (collab (getitem g [k, m])) (\<lambda>g_km.
     and_then (collab (getitem t_ricci [k, l])) (\<lambda>Ric_kl.
     and_then (collab (getitem g [i, m])) (\<lambda>g_im.
     and_then (collab (getitem t_ricci [k, m])) (\<lambda>Ric_km.
     and_then (collab (getitem g [i, l])) (\<lambda>g_il.
     and_then (collab (as_expr r_scalar_expr)) (\<lambda>r_scalar.
     and_then (collab (getitem g [i, l])) (\<lambda>g_il'.
     and_then (collab (getitem g [k, m])) (\<lambda>g_km'.
     and_then (collab (getitem g [i, m])) (\<lambda>g_im'.
     and_then (collab (getitem g [k, l])) (\<lambda>g_kl'.
       Inr (R_iklm
            + ((Ric_im * g_kl - Ric_il * g_km + Ric_kl * g_im - Ric_km * g_il)
                 / of_int (int dims' - 2)
               + r_scalar * (g_il' * g_km' - g_im' * g_kl')
                 / of_int ((int dims' - 1) * (int dims' - 2))))))))))))))))))"

text \<open>
  The index quadruple of the loop counter \<open>t\<close>. The source writes \<open>int(t / dims)\<close>, a
  float quotient truncated; for the counters of the loop, which stay below \<open>dims ** 4\<close>,
  it is the integer quotient as long as \<open>dims ** 4\<close> is below \<open>2 ** 52\<close>.
\<close>

definition unravel :: "nat \<Rightarrow> nat \<Rightarrow> nat \<times> nat \<times> nat \<times> nat" where
  "unravel dims' t =
     (t mod dims', (t div dims') mod dims', (t div dims' ^ 2) mod dims', (t div dims' ^ 3) mod dims')"

text \<open>
  \<open>C[i][k][l][m] = v\<close> on the nested Python list \<open>C\<close>: three subscripts and a store, each
  raising \<open>IndexError\<close> out of range.
\<close>

definition setitem4 ::
  "'a list list list list \<Rightarrow> nat \<Rightarrow> nat \<Rightarrow> nat \<Rightarrow> nat \<Rightarrow> 'a \<Rightarrow> error + 'a list list list list"
where
  "setitem4 C i k l m v =
     (if i < length C then
        (if k < length (C ! i) then
           (if l < length (C ! i ! k) then
              (if m < length (C ! i ! k ! l) then
                 Inr (C[i := (C ! i)[k := (C ! i ! k)[l := (C ! i ! k ! l)[m := v]]]])
               else Inl (IndexError ''list assignment index out of range''))
            else Inl (IndexError ''list index out of range''))
         else Inl (IndexError ''list index out of range''))
      else Inl (IndexError ''list index out of range''))"

text \<open>The body of \<open>for t in range(dims ** 4)\<close>, over the counters still to come.\<close>

fun Weyl_loop ::
  "'e ndarr \<Rightarrow> 'e ndarr \<Rightarrow> 'e ndarr \<Rightarrow> 'e ndarr \<Rightarrow> nat \<Rightarrow> nat list \<Rightarrow>
   'e list list list list \<Rightarrow> error + ('e::field_char_0) list list list list"
where
  "Weyl_loop t_riemann_cov t_ricci g r_scalar_expr dims' [] C = Inr C"
| "Weyl_loop t_riemann_cov t_ricci g r_scalar_expr dims' (t # ts) C =
     (case unravel dims' t of (i, k, l, m) \<Rightarrow>
        and_then (Weyl_component t_riemann_cov t_ricci g r_scalar_expr dims' i k l m) (\<lambda>v.
        and_then (setitem4 C i k l m v) (\<lambda>C'.
          Weyl_loop t_riemann_cov t_ricci g r_scalar_expr dims' ts C')))"

text \<open>\<open>np.zeros(shape=(dims, dims, dims, dims), dtype=int).tolist()\<close>.\<close>

definition zeros4 :: "nat \<Rightarrow> ('e::zero) list list list list" where
  "zeros4 dims' = replicate dims' (replicate dims' (replicate dims' (replicate dims' 0)))"

text \<open>\<open>sympy.Array(C)\<close> of a four-fold nested list.\<close>

definition Array4 :: "'e list list list list \<Rightarrow> 'e ndarr" where
  "Array4 C = Array (map (\<lambda>Ci. Array (map (\<lambda>Cik. Array (map (\<lambda>Cikl. Array (map Expr Cikl)) Cik)) Ci)) C)"

text \<open>
  \<open>WeylTensor.from_metric(metric)\<close>: the decomposition formula above dimension 3, the
  zero array in dimension 3, \<open>ValueError\<close> below.
\<close>

definition dimension_too_small :: string where
  "dimension_too_small = ''Dimension of the space/space-time should be 3 or more''"

definition WeylTensor_from_metric ::
  "('e::field_char_0, 'c) engine \<Rightarrow> 'e MetricTensor \<Rightarrow> error + 'e WeylTensor"
where
  "WeylTensor_from_metric E metric =
     (if dims metric > 3 then
        and_then
          (if config metric = ''uu'' then collab (Metric_inv E metric) else Inr metric)
          (\<lambda>metric_cov.
        and_then (collab (Riemann_from_metric E metric)) (\<lambda>t_riemann.
        and_then (collab (Riemann_change_config E t_riemann ''llll'' None)) (\<lambda>t_riemann_cov.
        and_then (RicciTensor_from_riemann E t_riemann None) (\<lambda>t_ricci.
        and_then (RicciScalar_from_riccitensor E t_ricci None) (\<lambda>r_scalar.
          let g = metric_cov; dims' = dims g in
          and_then
            (Weyl_loop (arr t_riemann_cov) (arr t_ricci) (arr g) (expr r_scalar) dims'
               [0 ..< dims' ^ 4] (zeros4 dims'))
            (\<lambda>C. WeylTensor_init E (simplify E (Array4 C)) (syms metric) ''llll''
                   (Some metric)))))))
      else if dims metric = 3 then
        WeylTensor_init E (zeros [3, 3]) (syms metric) ''llll'' (Some metric)
      else Inl (ValueError dimension_too_small))"


subsection \<open>The decomposition formula of the specification\<close>

text \<open>
  The component \<open>C[i,k,l,m]\<close> as the specification writes it, from the components
  \<open>R\<close> of the covariant Riemann tensor, \<open>Ric\<close> of the Ricci tensor and \<open>g\<close> of the
  covariant metric, the Ricci scalar \<open>Rscalar\<close> and the dimension \<open>n\<close>; and the
  four-fold nested list of these components, every index running over \<open>0, \<dots>, n - 1\<close>.
\<close>

definition Weyl_decomposition ::
  "nat \<Rightarrow> (nat \<Rightarrow> nat \<Rightarrow> nat \<Rightarrow> nat \<Rightarrow> 'e) \<Rightarrow> (nat \<Rightarrow> nat \<Rightarrow> 'e) \<Rightarrow> 'e \<Rightarrow> (nat \<Rightarrow> nat \<Rightarrow> 'e) \<Rightarrow>
   nat \<Rightarrow> nat \<Rightarrow> nat \<Rightarrow> nat \<Rightarrow> ('e::field_char_0)"
where
  "Weyl_decomposition n R Ric Rscalar g i k l m =
     R i k l m
     + (Ric i m * g k l - Ric i l * g k m + Ric k l * g i m - Ric k m * g i l) / of_nat (n - 2)
     + Rscalar * (g i l * g k m - g i m * g k l) / of_nat ((n - 1) * (n - 2))"

definition Weyl_table ::
  "nat \<Rightarrow> (nat \<Rightarrow> nat \<Rightarrow> nat \<Rightarrow> nat \<Rightarrow> 'e) \<Rightarrow> (nat \<Rightarrow> nat \<Rightarrow> 'e) \<Rightarrow> 'e \<Rightarrow> (nat \<Rightarrow> nat \<Rightarrow> 'e) \<Rightarrow>
   ('e::field_char_0) list list list list"
where
  "Weyl_table n R Ric Rscalar g =
     map (\<lambda>i. map (\<lambda>k. map (\<lambda>l. map (\<lambda>m. Weyl_decomposition n R Ric Rscalar g i k l m)
       [0 ..< n]) [0 ..< n]) [0 ..< n]) [0 ..< n]"

text \<open>A four-fold nested list all of whose levels have length \<open>n\<close>.\<close>

definition cube :: "nat \<Rightarrow> 'a list list list list \<Rightarrow> bool" where
  "cube n C \<longleftrightarrow>
     length C = n \<and>
     (\<forall>i<n. length (C ! i) = n \<and>
       (\<forall>k<n. length (C ! i ! k) = n \<and> (\<forall>l<n. length (C ! i ! k ! l) = n)))"


section \<open>Method lookup\<close>

text \<open>
  \<open>obj.change_config(newconfig, metric)\<close> on an object of one of the three classes.
  \<open>RicciTensor\<close> and \<open>WeylTensor\<close> define the method. \<open>class RicciScalar:\<close> has no base
  class and defines \<open>__init__\<close>, \<open>expr\<close>, \<open>parent_metric\<close>, \<open>from_riccitensor\<close>,
  \<open>from_riemann\<close>, \<open>from_christoffels\<close> and \<open>from_metric\<close> only, so the lookup of
  \<open>change_config\<close> on it raises \<open>AttributeError\<close> before any argument is looked at.
\<close>

datatype 'e object =
    RicciTensor_object "'e RicciTensor"
  | RicciScalar_object "'e RicciScalar"
  | WeylTensor_object "'e WeylTensor"

fun stored_parent_metric :: "'e object \<Rightarrow> 'e MetricTensor option" where
  "stored_parent_metric (RicciTensor_object t) = parent_metric t"
| "stored_parent_metric (RicciScalar_object s) = rs_parent_metric s"
| "stored_parent_metric (WeylTensor_object w) = parent_metric w"

definition no_attribute_change_config :: string where
  "no_attribute_change_config = ''RicciScalar object has no attribute change_config''"

fun call_change_config ::
  "('e, 'c) engine \<Rightarrow> 'e object \<Rightarrow> string \<Rightarrow> 'e MetricTensor option \<Rightarrow> error + 'e object"
where
  "call_change_config E (RicciTensor_object t) newconfig metric =
     and_then (RicciTensor_change_config E t newconfig metric) (\<lambda>t'. Inr (RicciTensor_object t'))"
| "call_change_config E (WeylTensor_object w) newconfig metric =
     and_then (WeylTensor_change_config E w newconfig metric) (\<lambda>w'. Inr (WeylTensor_object w'))"
| "call_change_config E (RicciScalar_object s) newconfig metric =
     Inl (AttributeError no_attribute_change_config)"

text \<open>The class of the exception that ends a call, if one does.\<close>

datatype kind = TypeError_kind | ValueError_kind | Exception_kind | AttributeError_kind
  | IndexError_kind | Propagated_kind

fun kind_of :: "error \<Rightarrow> kind" where
  "kind_of (TypeError msg) = TypeError_kind"
| "kind_of (ValueError msg) = ValueError_kind"
| "kind_of (Exception msg) = Exception_kind"
| "kind_of (AttributeError msg) = AttributeError_kind"
| "kind_of (IndexError msg) = IndexError_kind"
| "kind_of (Propagated msg) = Propagated_kind"

fun raises :: "kind \<Rightarrow> error + 'a \<Rightarrow> bool" where
  "raises k (Inl e) = (kind_of e = k)"
| "raises k (Inr x) = False"


section \<open>Arrays by their components\<close>

text \<open>
  The array of a given shape whose component at each index tuple is given by a
  function, and the component of an array at an index tuple, zero where there is none.
\<close>

fun tabulate :: "nat list \<Rightarrow> (nat list \<Rightarrow> 'e) \<Rightarrow> 'e ndarr" where
  "tabulate [] f = Expr (f [])"
| "tabulate (d # ds) f = Array (map (\<lambda>i. tabulate ds (\<lambda>is. f (i # is))) [0 ..< d])"

definition entry :: "('e::zero) ndarr \<Rightarrow> nat list \<Rightarrow> 'e" where
  "entry a is = (case getitem a is of Inl msg \<Rightarrow> 0 | Inr e \<Rightarrow> e)"


section \<open>An engine to run the code on: metrics of constant components\<close>

text \<open>
  The expressions are rational numbers. A metric whose components are constants has
  vanishing derivatives, hence vanishing Christoffel symbols and a vanishing Riemann
  tensor; raising or lowering an index of a vanishing array leaves it vanishing. On
  such metrics the collaborators are the functions below: the Christoffel symbols
  remember their metric, the Riemann tensor is the zero array of shape
  \<open>dims\<^sup>4\<close> in configuration "ulll", and \<open>tensorcontraction\<close> sums the entries whose
  indices on the two axes agree.
\<close>

definition contract :: "('e::comm_monoid_add) ndarr \<Rightarrow> nat \<times> nat \<Rightarrow> string + 'e ndarr" where
  "contract a axes =
     (case axes of (p, q) \<Rightarrow>
        let sh = shape a in
        if p < q \<and> q < length sh \<and> sh ! p = sh ! q then
          Inr (tabulate (take p sh @ take (q - p - 1) (drop (p + 1) sh) @ drop (q + 1) sh)
                 (\<lambda>is. sum_list (map (\<lambda>j. entry a (take p is @ [j] @ take (q - p - 1) (drop p is)
                                                  @ [j] @ drop (q - 1) is))
                                  [0 ..< sh ! p])))
        else Inl ''ValueError'')"

definition flat_riemann ::
  "rat MetricTensor \<Rightarrow> rat MetricTensor option \<Rightarrow> rat RiemannCurvatureTensor"
where
  "flat_riemann metric pm =
     \<lparr>arr = zeros [dims metric, dims metric, dims metric, dims metric], config = ''ulll'',
      syms = syms metric, dims = dims metric, order = 4,
      parent_metric = (case pm of None \<Rightarrow> Some metric | Some m \<Rightarrow> Some m)\<rparr>"

definition flat_engine :: "(rat, rat MetricTensor) engine" where
  "flat_engine =
     \<lparr>Tensor_init = (\<lambda>a cfg. None),
      change_config_util = (\<lambda>t m newconfig. Inr (zeros (shape (arr t)))),
      tensorcontraction = contract,
      simplify = (\<lambda>a. a),
      Christoffel_from_metric = (\<lambda>m. Inr m),
      Riemann_from_christoffels = (\<lambda>ch pm. Inr (flat_riemann ch pm)),
      Riemann_from_metric = (\<lambda>m. Inr (flat_riemann m None)),
      Riemann_change_config =
        (\<lambda>r newconfig m.
           case (case m of None \<Rightarrow> parent_metric r | Some m' \<Rightarrow> Some m') of
             None \<Rightarrow> Inl ''Exception''
           | Some m' \<Rightarrow> Inr (r\<lparr>config := newconfig, parent_metric := Some m'\<rparr>)),
      Metric_inv = (\<lambda>m. Inl ''NotImplementedError'')\<rparr>"

text \<open>The metrics \<open>diag(-1, 1, 1, 1)\<close>, \<open>diag(1, 1, 1)\<close> and \<open>diag(1, 1)\<close>.\<close>

definition diag :: "('e::zero) list \<Rightarrow> 'e ndarr" where
  "diag ds = tabulate [length ds, length ds] (\<lambda>is. if is ! 0 = is ! 1 then ds ! (is ! 0) else 0)"

definition minkowski :: "rat MetricTensor" where
  "minkowski = \<lparr>arr = diag [-1, 1, 1, 1], config = ''ll'',
                 syms = SymTuple [''t'', ''x'', ''y'', ''z''], dims = 4\<rparr>"

definition euclid3 :: "rat MetricTensor" where
  "euclid3 = \<lparr>arr = diag [1, 1, 1], config = ''ll'',
               syms = SymTuple [''x'', ''y'', ''z''], dims = 3\<rparr>"

definition euclid2 :: "rat MetricTensor" where
  "euclid2 = \<lparr>arr = diag [1, 1], config = ''ll'', syms = SymTuple [''x'', ''y''], dims = 2\<rparr>"


section \<open>Raising and lowering indices, as specified\<close>

text \<open>
  Modelled from the spec: the letters of a configuration string. The specification
  describes the index configuration as a string with one letter per axis, \<open>u\<close> for an
  upper (contravariant) and \<open>l\<close> for a lower (covariant) index.
\<close>

definition valid_config :: "string \<Rightarrow> bool" where
  "valid_config cfg = list_all (\<lambda>c. c = CHR ''u'' \<or> c = CHR ''l'') cfg"

text \<open>
  Modelled from the spec: the change of one index. The specification names
  \<open>_change_config\<close> an index raising and lowering routine that needs a metric tensor;
  the routine itself is defined with the \<open>Tensor\<close> base class, outside the two modules.
  Raising the index on axis \<open>p\<close> contracts that axis with the contravariant metric,
  lowering it contracts the axis with the covariant metric: the component of the result
  at an index tuple is the sum over \<open>b\<close> of \<open>M[a, b]\<close> times the component of \<open>T\<close> with
  \<open>b\<close> in place of the index \<open>a\<close> on axis \<open>p\<close>.
\<close>

definition change_index :: "('e::field_char_0) ndarr \<Rightarrow> 'e ndarr \<Rightarrow> nat \<Rightarrow> 'e ndarr" where
  "change_index M T p =
     tabulate (shape T)
       (\<lambda>is. sum_list (map (\<lambda>b. entry M [is ! p, b] * entry T (is[p := b])) [0 ..< shape T ! p]))"

text \<open>
  Modelled from the spec: \<open>_change_config(tensor, metric, newconfig)\<close>, "an externally
  supplied index raising/lowering routine that needs a metric tensor and a target
  configuration string". The metric is stored covariant ("ll") or contravariant ("uu"),
  and its other form is its inverse (\<open>MetricTensor.inv\<close>, the parameter \<open>metric_inv\<close>).
  Every axis whose letter differs between the configuration of the tensor and the
  target is converted, one axis after the other: with the contravariant metric where
  the target letter is \<open>u\<close>, with the covariant metric where it is \<open>l\<close>. A target of
  another length or with other letters, a metric in a mixed configuration and a metric
  without inverse are failures.
\<close>

definition index_raising_lowering ::
  "('e MetricTensor \<Rightarrow> string + 'e MetricTensor) \<Rightarrow>
   ('e::field_char_0) Tensor \<Rightarrow> 'e MetricTensor \<Rightarrow> string \<Rightarrow> string + 'e ndarr"
where
  "index_raising_lowering metric_inv t metric newconfig =
     (if \<not> (length newconfig = length (config t) \<and> valid_config newconfig) then Inl ''ValueError''
      else
        case (if config metric = ''ll''
              then map_sum id (\<lambda>m'. (arr metric, arr m')) (metric_inv metric)
              else if config metric = ''uu''
              then map_sum id (\<lambda>m'. (arr m', arr metric)) (metric_inv metric)
              else Inl ''ValueError'') of
          Inl msg \<Rightarrow> Inl msg
        | Inr (cov, contra) \<Rightarrow>
            Inr (fold (\<lambda>p T. if newconfig ! p = config t ! p then T
                              else change_index (if newconfig ! p = CHR ''u'' then contra else cov) T p)
                   [0 ..< length newconfig] (arr t)))"

text \<open>
  An array is an \<open>n\<times>n\<close> matrix when it is the table of its own entries; two such arrays
  are inverse to each other when their product is the unit matrix.
\<close>

definition square :: "nat \<Rightarrow> ('e::zero) ndarr \<Rightarrow> bool" where
  "square n a \<longleftrightarrow> a = tabulate [n, n] (entry a)"

definition inverse_arrays :: "nat \<Rightarrow> ('e::field_char_0) ndarr \<Rightarrow> 'e ndarr \<Rightarrow> bool" where
  "inverse_arrays n A B \<longleftrightarrow>
     list_all (\<lambda>i. list_all (\<lambda>j.
         sum_list (map (\<lambda>b. entry A [i, b] * entry B [b, j]) [0 ..< n]) = (if i = j then 1 else 0))
       [0 ..< n]) [0 ..< n]"

text \<open>
  An engine for dimension 2 with this routine: the inverse of a \<open>2\<times>2\<close> metric by the
  adjugate formula, the metric \<open>((2, 1), (1, 1))\<close> with its inverse, and a tensor with the
  components \<open>((1, 2), (3, 4))\<close>.
\<close>

definition inv2 :: "rat MetricTensor \<Rightarrow> string + rat MetricTensor" where
  "inv2 m =
     (let a = entry (arr m) [0, 0]; b = entry (arr m) [0, 1];
          c = entry (arr m) [1, 0]; d = entry (arr m) [1, 1];
          det = a * d - b * c
      in if \<not> square 2 (arr m) \<or> det = 0 then Inl ''NonInvertibleMatrixError''
         else Inr (m\<lparr>arr := Array [Array [Expr (d / det), Expr (- b / det)],
                                   Array [Expr (- c / det), Expr (a / det)]],
                     config := (if config m = ''ll'' then ''uu'' else ''ll'')\<rparr>))"

definition plane_engine :: "(rat, rat MetricTensor) engine" where
  "plane_engine =
     flat_engine\<lparr>change_config_util := index_raising_lowering inv2, Metric_inv := inv2\<rparr>"

definition skew_metric :: "rat MetricTensor" where
  "skew_metric = \<lparr>arr = Array [Array [Expr 2, Expr 1], Array [Expr 1, Expr 1]], config = ''ll'',
                   syms = SymTuple [''x'', ''y''], dims = 2\<rparr>"

definition sample_ricci :: "rat RicciTensor" where
  "sample_ricci = \<lparr>arr = Array [Array [Expr 1, Expr 2], Array [Expr 3, Expr 4]], config = ''ll'',
                    syms = SymTuple [''x'', ''y''], dims = 2, order = 2,
                    parent_metric = Some skew_metric\<rparr>"

definition skew_inverse :: "rat MetricTensor" where
  "skew_inverse = \<lparr>arr = Array [Array [Expr 1, Expr (- 1)], Array [Expr (- 1), Expr 2]],
                    config = ''uu'', syms = SymTuple [''x'', ''y''], dims = 2\<rparr>"

text \<open>The tensor \<open>((1, 2), (3, 4))\<close> with its first index raised by this metric.\<close>

definition sample_mixed :: "rat RicciTensor" where
  "sample_mixed = \<lparr>arr = Array [Array [Expr (- 2), Expr (- 2)], Array [Expr 5, Expr 6]],
                    config = ''ul'', syms = SymTuple [''x'', ''y''], dims = 2, order = 2,
                    parent_metric = Some skew_metric\<rparr>"


text \<open>A Ricci scalar and a Ricci tensor constructed without a parent metric.\<close>

definition orphan_scalar :: "rat RicciScalar" where
  "orphan_scalar = \<lparr>rs_order = 0, rs_parent_metric = None, expr = Expr 0,
                     rs_syms = SymTuple [''x'', ''y''], rs_dims = 2\<rparr>"

definition orphan_tensor :: "rat Tensor" where
  "orphan_tensor = \<lparr>arr = zeros [2, 2], config = ''ll'', syms = SymTuple [''x'', ''y''],
                     dims = 2, order = 2, parent_metric = None\<rparr>"

text \<open>The vanishing Ricci tensor of a metric of constant components.\<close>

definition flat_ricci :: "rat MetricTensor \<Rightarrow> string \<Rightarrow> rat RicciTensor" where
  "flat_ricci metric cfg = \<lparr>arr = zeros [dims metric, dims metric], config = cfg, syms = syms metric,
      dims = dims metric, order = 2, parent_metric = Some metric\<rparr>"


section \<open>Basic facts\<close>

lemma and_then_Inl [simp]: "and_then (Inl e) f = Inl e"
  by (simp add: and_then_def)

lemma and_then_Inr [simp]: "and_then (Inr x) f = f x"
  by (simp add: and_then_def)

lemma collab_Inl [simp]: "collab (Inl msg) = Inl (Propagated msg)"
  by (simp add: collab_def)

lemma collab_Inr [simp]: "collab (Inr x) = Inr x"
  by (simp add: collab_def)

lemma and_then_eq_Inr: "and_then r f = Inr y \<longleftrightarrow> (\<exists>x. r = Inr x \<and> f x = Inr y)"
  by (cases r) simp_all

lemma collab_eq_Inr [simp]: "collab r = Inr x \<longleftrightarrow> r = Inr x"
  by (cases r) simp_all

lemma raises_and_then:
  "raises k (and_then r f) \<longleftrightarrow> raises k r \<or> (\<exists>x. r = Inr x \<and> raises k (f x))"
  by (cases r) simp_all

lemma raises_collab: "raises k (collab r) \<longleftrightarrow> k = Propagated_kind \<and> isl r"
  by (cases r) auto

lemma flat_engine_simps [simp]:
  "Tensor_init flat_engine a cfg = None"
  "simplify flat_engine a = a"
  "tensorcontraction flat_engine = contract"
  "change_config_util flat_engine t m newconfig = Inr (zeros (shape (arr t)))"
  "Christoffel_from_metric flat_engine m = Inr m"
  "Riemann_from_christoffels flat_engine ch pm = Inr (flat_riemann ch pm)"
  "Riemann_from_metric flat_engine m = Inr (flat_riemann m None)"
  by (simp_all add: flat_engine_def)

lemma map_sum_and_then:
  "map_sum id f (and_then r g) = and_then r (\<lambda>x. map_sum id f (g x))"
  by (cases r) simp_all

lemma and_then_assoc:
  "and_then (and_then r f) g = and_then r (\<lambda>x. and_then (f x) g)"
  by (cases r) simp_all

lemma RicciTensor_init_eq_Inr:
  "RicciTensor_init E a s cfg pm = Inr t \<longleftrightarrow>
     Tensor_init E a cfg = None \<and> isinstance_list_tuple s \<and> length cfg = 2 \<and>
     t = \<lparr>arr = a, config = cfg, syms = s, dims = len s, order = 2, parent_metric = pm\<rparr>"
  by (auto simp: RicciTensor_init_def split: option.splits)

lemma RicciScalar_init_eq_Inr:
  "RicciScalar_init x s pm = Inr r \<longleftrightarrow>
     isinstance_list_tuple s \<and>
     r = \<lparr>rs_order = 0, rs_parent_metric = pm, expr = x, rs_syms = s, rs_dims = len s\<rparr>"
  by (auto simp: RicciScalar_init_def)

lemma RicciTensor_change_config_eq_Inr:
  "RicciTensor_change_config E self newconfig metric = Inr t \<longleftrightarrow>
     (\<exists>m a. (case metric of None \<Rightarrow> parent_metric self | Some m' \<Rightarrow> Some m') = Some m
        \<and> change_config_util E self m newconfig = Inr a
        \<and> RicciTensor_init E a (syms self) newconfig (Some m) = Inr t)"
  by (auto simp: RicciTensor_change_config_def Let_def and_then_eq_Inr split: option.splits)

lemma contract_flat2: "contract (zeros [2, 2, 2, 2] :: rat ndarr) (0, 2) = Inr (zeros [2, 2])"
  by code_simp


section \<open>The constructors\<close>

text \<open>
  Claim C5, as amended. Once the base constructor has accepted the array and the
  configuration: \<open>RicciTensor\<close> and \<open>WeylTensor\<close> raise \<open>TypeError\<close> when \<open>syms\<close> is not a
  list or tuple; when \<open>syms\<close> is a list or tuple, they raise \<open>ValueError\<close> if the length
  of the configuration differs from the order (2 for \<open>RicciTensor\<close>, 4 for
  \<open>WeylTensor\<close>), and return the object otherwise. The check of \<open>syms\<close> comes first, so a
  configuration of the wrong length is reported only for a \<open>syms\<close> that passed.
\<close>

theorem constructor_validation:
  assumes "Tensor_init E a cfg = None"
  shows "(\<not> isinstance_list_tuple s \<longrightarrow>
            RicciTensor_init E a s cfg pm = Inl (TypeError ''syms should be a list or tuple'') \<and>
            WeylTensor_init E a s cfg pm = Inl (TypeError ''syms should be a list or tuple''))
       \<and> (isinstance_list_tuple s \<and> length cfg \<noteq> 2 \<longrightarrow>
            RicciTensor_init E a s cfg pm = Inl (ValueError ''config should be of length 2''))
       \<and> (isinstance_list_tuple s \<and> length cfg \<noteq> 4 \<longrightarrow>
            WeylTensor_init E a s cfg pm = Inl (ValueError ''config should be of length 4''))
       \<and> (isinstance_list_tuple s \<and> length cfg = 2 \<longrightarrow>
            RicciTensor_init E a s cfg pm =
              Inr \<lparr>arr = a, config = cfg, syms = s, dims = len s, order = 2, parent_metric = pm\<rparr>)
       \<and> (isinstance_list_tuple s \<and> length cfg = 4 \<longrightarrow>
            WeylTensor_init E a s cfg pm =
              Inr \<lparr>arr = a, config = cfg, syms = s, dims = len s, order = 4, parent_metric = pm\<rparr>)"
  using assms by (simp add: RicciTensor_init_def WeylTensor_init_def)

text \<open>
  The constructors run on the four kinds of input: a \<open>syms\<close> that is no sequence, a
  configuration too short for both classes, one of length 2, one of length 4.
\<close>

theorem constructor_validation_witness:
  "Tensor_init flat_engine (zeros [2, 2]) ''ll'' = None
   \<and> \<not> isinstance_list_tuple NotSequence
   \<and> RicciTensor_init flat_engine (zeros [2, 2]) NotSequence ''ll'' None
       = Inl (TypeError ''syms should be a list or tuple'')
   \<and> WeylTensor_init flat_engine (zeros [2, 2]) NotSequence ''ll'' None
       = Inl (TypeError ''syms should be a list or tuple'')
   \<and> isinstance_list_tuple (SymList [''x'', ''y'']) \<and> length ''l'' \<noteq> (2::nat)
   \<and> length ''l'' \<noteq> (4::nat)
   \<and> RicciTensor_init flat_engine (zeros [2, 2]) (SymList [''x'', ''y'']) ''l'' None
       = Inl (ValueError ''config should be of length 2'')
   \<and> WeylTensor_init flat_engine (zeros [2, 2]) (SymList [''x'', ''y'']) ''l'' None
       = Inl (ValueError ''config should be of length 4'')
   \<and> length ''ul'' = (2::nat)
   \<and> RicciTensor_init flat_engine (zeros [2, 2]) (SymList [''x'', ''y'']) ''ul'' None
       = Inr \<lparr>arr = zeros [2, 2], config = ''ul'', syms = SymList [''x'', ''y''],
              dims = len (SymList [''x'', ''y'']), order = 2, parent_metric = None\<rparr>
   \<and> length ''ulll'' = (4::nat)
   \<and> WeylTensor_init flat_engine (zeros [2, 2]) (SymList [''x'', ''y'']) ''ulll'' None
       = Inr \<lparr>arr = zeros [2, 2], config = ''ulll'', syms = SymList [''x'', ''y''],
              dims = len (SymList [''x'', ''y'']), order = 4, parent_metric = None\<rparr>"
proof -
  have acc: "\<And>cfg. Tensor_init flat_engine (zeros [2, 2] :: rat ndarr) cfg = None"
    by simp
  show ?thesis
    using acc
      constructor_validation [of flat_engine "zeros [2, 2]" "''ll''" NotSequence None, OF acc]
      constructor_validation [of flat_engine "zeros [2, 2]" "''l''" "SymList [''x'', ''y'']" None, OF acc]
      constructor_validation [of flat_engine "zeros [2, 2]" "''ul''" "SymList [''x'', ''y'']" None, OF acc]
      constructor_validation [of flat_engine "zeros [2, 2]" "''ulll''" "SymList [''x'', ''y'']" None, OF acc]
    by simp
qed

text \<open>
  Claim C5 as stated fails where both conditions hold: with a \<open>syms\<close> that is no
  sequence and the configuration "l", whose length is not 2, \<open>RicciTensor\<close> raises
  \<open>TypeError\<close>, not \<open>ValueError\<close>.
\<close>

theorem constructor_validation_counterexample:
  "length ''l'' \<noteq> (2::nat)
   \<and> RicciTensor_init flat_engine (zeros [2, 2]) NotSequence ''l'' None
       = Inl (TypeError ''syms should be a list or tuple'')
   \<and> \<not> raises ValueError_kind
         (RicciTensor_init flat_engine (zeros [2, 2]) NotSequence ''l'' None)"
  by (simp add: RicciTensor_init_def)





section \<open>Changing the configuration without a metric\<close>

text \<open>
  Claim C4, as amended. On a \<open>RicciTensor\<close> and on a \<open>WeylTensor\<close> that stored no parent
  metric, \<open>change_config\<close> without a metric raises \<open>Exception\<close> and returns no object.
  \<open>RicciScalar\<close> has no \<open>change_config\<close>: the call ends in the \<open>AttributeError\<close> of the
  method lookup, with or without a metric.
\<close>

theorem change_config_without_metric:
  assumes "parent_metric t = None"
  shows "RicciTensor_change_config E t newconfig None = Inl (Exception parent_metric_not_found)
       \<and> WeylTensor_change_config E t newconfig None = Inl (Exception parent_metric_not_found)
       \<and> call_change_config E (RicciTensor_object t) newconfig None
           = Inl (Exception parent_metric_not_found)
       \<and> call_change_config E (WeylTensor_object t) newconfig None
           = Inl (Exception parent_metric_not_found)
       \<and> call_change_config E (RicciScalar_object s) newconfig metric
           = Inl (AttributeError no_attribute_change_config)"
  using assms by (simp add: RicciTensor_change_config_def WeylTensor_change_config_def)

theorem change_config_without_metric_witness:
  "parent_metric orphan_tensor = None
   \<and> RicciTensor_change_config flat_engine orphan_tensor ''ul'' None
       = Inl (Exception parent_metric_not_found)
   \<and> WeylTensor_change_config flat_engine orphan_tensor ''ul'' None
       = Inl (Exception parent_metric_not_found)"
proof -
  have h: "parent_metric orphan_tensor = None" by (simp add: orphan_tensor_def)
  from h change_config_without_metric [OF h, where E = flat_engine and newconfig = "''ul''"] show ?thesis by blast
qed

text \<open>
  Claim C4 as stated fails on \<open>RicciScalar\<close>: on a Ricci scalar without parent metric the
  call does not end in an \<open>Exception\<close> for the missing metric but in the
  \<open>AttributeError\<close> of the lookup, and so it does when a metric is supplied.
\<close>

theorem change_config_RicciScalar_counterexample:
  "stored_parent_metric (RicciScalar_object orphan_scalar) = None
   \<and> call_change_config flat_engine (RicciScalar_object orphan_scalar) ''ul'' None
       = Inl (AttributeError no_attribute_change_config)
   \<and> \<not> raises Exception_kind
         (call_change_config flat_engine (RicciScalar_object orphan_scalar) ''ul'' None)
   \<and> call_change_config flat_engine (RicciScalar_object orphan_scalar) ''ul'' (Some euclid2)
       = Inl (AttributeError no_attribute_change_config)"
  by (simp add: orphan_scalar_def)


section \<open>WeylTensor.from_metric: the dimension\<close>

lemma RicciTensor_init_no_ValueError:
  "length cfg = 2 \<Longrightarrow> \<not> raises ValueError_kind (RicciTensor_init E a s cfg pm)"
  by (simp add: RicciTensor_init_def split: option.split)

lemma WeylTensor_init_no_ValueError:
  "length cfg = 4 \<Longrightarrow> \<not> raises ValueError_kind (WeylTensor_init E a s cfg pm)"
  by (simp add: WeylTensor_init_def split: option.split)

lemma RicciTensor_change_config_no_ValueError:
  "length newconfig = 2 \<Longrightarrow> \<not> raises ValueError_kind (RicciTensor_change_config E t newconfig m)"
  by (auto simp: RicciTensor_change_config_def Let_def raises_and_then raises_collab
        RicciTensor_init_no_ValueError split: option.split)

lemma RicciTensor_from_riemann_no_ValueError:
  "\<not> raises ValueError_kind (RicciTensor_from_riemann E r pm)"
  by (auto simp: RicciTensor_from_riemann_def Let_def raises_and_then raises_collab
        RicciTensor_init_no_ValueError split: if_splits)

lemma RicciScalar_init_no_ValueError: "\<not> raises ValueError_kind (RicciScalar_init x s pm)"
  by (simp add: RicciScalar_init_def)

lemma RicciScalar_from_riccitensor_no_ValueError:
  "\<not> raises ValueError_kind (RicciScalar_from_riccitensor E t pm)"
  by (auto simp: RicciScalar_from_riccitensor_def Let_def raises_and_then raises_collab
        RicciTensor_change_config_no_ValueError RicciScalar_init_no_ValueError split: if_splits)

lemma Weyl_component_no_ValueError:
  "\<not> raises ValueError_kind (Weyl_component R Ric g rs n i k l m)"
  by (simp add: Weyl_component_def raises_and_then raises_collab)

lemma setitem4_no_ValueError: "\<not> raises ValueError_kind (setitem4 C i k l m v)"
  by (simp add: setitem4_def)

lemma Weyl_loop_no_ValueError:
  "\<not> raises ValueError_kind (Weyl_loop R Ric g rs n ts C)"
  by (induction ts arbitrary: C)
     (auto simp: raises_and_then Weyl_component_no_ValueError setitem4_no_ValueError
        split: prod.splits)

text \<open>
  Claim C6. Below dimension 3, \<open>WeylTensor.from_metric\<close> raises the \<open>ValueError\<close> of its
  last line. From dimension 3 on it does not raise that error: none of the \<open>raise\<close>
  statements of the two modules that these paths can reach raises a \<open>ValueError\<close> (an
  exception of a collaborator is not one of them: it propagates as it is).
\<close>

theorem from_metric_dimension_check:
  "(dims metric < 3 \<longrightarrow>
      WeylTensor_from_metric E metric = Inl (ValueError dimension_too_small))
   \<and> (3 \<le> dims metric \<longrightarrow> \<not> raises ValueError_kind (WeylTensor_from_metric E metric))"
proof (intro conjI impI)
  assume "dims metric < 3"
  then show "WeylTensor_from_metric E metric = Inl (ValueError dimension_too_small)"
    by (simp add: WeylTensor_from_metric_def)
next
  assume ge: "3 \<le> dims metric"
  show "\<not> raises ValueError_kind (WeylTensor_from_metric E metric)"
  proof (cases "dims metric = 3")
    case True
    then show ?thesis
      by (simp add: WeylTensor_from_metric_def WeylTensor_init_no_ValueError)
  next
    case False
    with ge have "3 < dims metric" by simp
    then show ?thesis
      by (auto simp: WeylTensor_from_metric_def Let_def raises_and_then raises_collab
            RicciTensor_from_riemann_no_ValueError RicciScalar_from_riccitensor_no_ValueError
            Weyl_loop_no_ValueError WeylTensor_init_no_ValueError split: if_splits)
  qed
qed

theorem from_metric_dimension_check_witness:
  "dims euclid2 < 3
   \<and> WeylTensor_from_metric flat_engine euclid2 = Inl (ValueError dimension_too_small)
   \<and> 3 \<le> dims euclid3
   \<and> \<not> raises ValueError_kind (WeylTensor_from_metric flat_engine euclid3)"
proof -
  have a: "dims euclid2 < 3" by (simp add: euclid2_def)
  have b: "3 \<le> dims euclid3" by (simp add: euclid3_def)
  from a b from_metric_dimension_check [of euclid2 flat_engine]
    from_metric_dimension_check [of euclid3 flat_engine]
  show ?thesis by blast
qed

text \<open>
  In dimension 3 the array returned is of shape \<open>3\<times>3\<close>, whatever the engine.
\<close>

lemma from_metric_dimension_3_shape:
  assumes "dims metric = 3" and "WeylTensor_from_metric E metric = Inr w"
  shows "shape (arr w) = [3, 3] \<and> config w = ''llll'' \<and> parent_metric w = Some metric"
  using assms
  by (auto simp: WeylTensor_from_metric_def WeylTensor_init_def numeral_3_eq_3
        split: option.splits if_splits)

text \<open>
  Claim C1 on the code. For the 3-dimensional metric \<open>diag(1, 1, 1)\<close> the result of
  \<open>WeylTensor.from_metric\<close> holds the array \<open>np.zeros((3, 3))\<close>: all entries are zero, the
  configuration is "llll" and the parent metric is the input, but the shape is
  \<open>3\<times>3\<close>, of rank 2, not \<open>3\<times>3\<times>3\<times>3\<close>.
\<close>

theorem from_metric_dimension_3:
  "dims euclid3 = 3
   \<and> WeylTensor_from_metric flat_engine euclid3 =
       Inr \<lparr>arr = zeros [3, 3], config = ''llll'', syms = syms euclid3, dims = 3,
            order = 4, parent_metric = Some euclid3\<rparr>
   \<and> shape (zeros [3, 3] :: rat ndarr) = [3, 3]
   \<and> shape (zeros [3, 3] :: rat ndarr) \<noteq> [3, 3, 3, 3]
   \<and> entries (zeros [3, 3] :: rat ndarr) = replicate 9 0"
  by (simp add: WeylTensor_from_metric_def WeylTensor_init_def euclid3_def numeral_3_eq_3
        eval_nat_numeral)


section \<open>The contractions\<close>

text \<open>
  Claim C7. \<open>RicciTensor.from_riemann(riemann, parent_metric)\<close> returns exactly when the
  following steps succeed, and then with their result: the Riemann tensor is kept if
  its configuration is "ulll" and is otherwise converted to "ulll" by its own
  \<open>change_config\<close>, called with the \<open>parent_metric\<close> argument as it was passed; the axes
  (0, 2) of the array of that tensor are contracted; the contracted array is stored with
  configuration "ll", whatever the input. The parent metric stored is the argument, or
  the one of the "ulll" tensor when none was passed.
\<close>

theorem from_riemann_contracts:
  "RicciTensor_from_riemann E riemann pm = Inr t \<longleftrightarrow>
     (\<exists>r'. ((config riemann = ''ulll'' \<and> r' = riemann) \<or>
            (config riemann \<noteq> ''ulll'' \<and> Riemann_change_config E riemann ''ulll'' pm = Inr r'))
        \<and> (\<exists>c. tensorcontraction E (arr r') (0, 2) = Inr c
              \<and> Tensor_init E c ''ll'' = None \<and> isinstance_list_tuple (syms r')
              \<and> t = \<lparr>arr = c, config = ''ll'', syms = syms r', dims = len (syms r'), order = 2,
                      parent_metric = (case pm of None \<Rightarrow> parent_metric r' | Some m \<Rightarrow> Some m)\<rparr>))"
  by (auto simp: RicciTensor_from_riemann_def Let_def and_then_eq_Inr RicciTensor_init_eq_Inr)

text \<open>
  A vanishing Riemann tensor in dimension 2, once already in configuration "ulll" and
  once in "llll", so that it is converted first.
\<close>

theorem from_riemann_contracts_witness:
  "RicciTensor_from_riemann flat_engine (flat_riemann euclid2 None) None =
     Inr \<lparr>arr = zeros [2, 2], config = ''ll'', syms = syms euclid2, dims = 2, order = 2,
          parent_metric = Some euclid2\<rparr>
   \<and> RicciTensor_from_riemann flat_engine ((flat_riemann euclid2 None)\<lparr>config := ''llll''\<rparr>) None =
     Inr \<lparr>arr = zeros [2, 2], config = ''ll'', syms = syms euclid2, dims = 2, order = 2,
          parent_metric = Some euclid2\<rparr>"
proof
  show "RicciTensor_from_riemann flat_engine (flat_riemann euclid2 None) None =
     Inr \<lparr>arr = zeros [2, 2], config = ''ll'', syms = syms euclid2, dims = 2, order = 2,
          parent_metric = Some euclid2\<rparr>"
    apply (rule from_riemann_contracts [THEN iffD2])
    apply (rule exI [of _ "flat_riemann euclid2 None"])
    apply (simp add: flat_riemann_def euclid2_def contract_flat2 del: zeros.simps One_nat_def)
    done
  show "RicciTensor_from_riemann flat_engine ((flat_riemann euclid2 None)\<lparr>config := ''llll''\<rparr>) None =
     Inr \<lparr>arr = zeros [2, 2], config = ''ll'', syms = syms euclid2, dims = 2, order = 2,
          parent_metric = Some euclid2\<rparr>"
    apply (rule from_riemann_contracts [THEN iffD2])
    apply (rule exI [of _ "flat_riemann euclid2 None"])
    apply (simp add: flat_riemann_def euclid2_def contract_flat2 flat_engine_def del: zeros.simps One_nat_def)
    done
qed

text \<open>
  Claim C8. \<open>RicciScalar.from_riccitensor(riccitensor, parent_metric)\<close> returns exactly
  when the following steps succeed, and then with their result. A Ricci tensor in
  configuration "ul" is kept. Any other is converted by \<open>RicciTensor.change_config\<close>:
  the metric is the \<open>parent_metric\<close> argument, or the parent metric of the tensor when
  none is passed; \<open>_change_config\<close> delivers the array for the target "ul" under that
  metric; the converted tensor holds this array, in configuration "ul". In both cases
  the tensor that is traced is in configuration "ul"; the axes (0, 1) of its array are
  contracted, and the contraction is the expression of the Ricci scalar returned.
\<close>

theorem from_riccitensor_traces:
  "RicciScalar_from_riccitensor E riccitensor pm = Inr r \<longleftrightarrow>
     (\<exists>mixed.
        ((config riccitensor = ''ul'' \<and> mixed = riccitensor) \<or>
         (config riccitensor \<noteq> ''ul'' \<and>
          RicciTensor_change_config E riccitensor ''ul'' pm = Inr mixed \<and>
          (\<exists>metric a.
             (case pm of None \<Rightarrow> parent_metric riccitensor | Some m \<Rightarrow> Some m) = Some metric
             \<and> change_config_util E riccitensor metric ''ul'' = Inr a
             \<and> Tensor_init E a ''ul'' = None
             \<and> mixed = \<lparr>arr = a, config = ''ul'', syms = syms riccitensor,
                         dims = len (syms riccitensor), order = 2,
                         parent_metric = Some metric\<rparr>)))
        \<and> config mixed = ''ul''
        \<and> (\<exists>c. tensorcontraction E (arr mixed) (0, 1) = Inr c
              \<and> isinstance_list_tuple (syms mixed)
              \<and> r = \<lparr>rs_order = 0,
                      rs_parent_metric = (case pm of None \<Rightarrow> parent_metric mixed | Some m \<Rightarrow> Some m),
                      expr = c, rs_syms = syms mixed, rs_dims = len (syms mixed)\<rparr>))"
  (is "?lhs \<longleftrightarrow> ?rhs")
proof (cases "config riccitensor = ''ul''")
  case True
  then show ?thesis
    by (auto simp: RicciScalar_from_riccitensor_def Let_def and_then_eq_Inr RicciScalar_init_eq_Inr)
next
  case False
  have conv: "RicciTensor_change_config E riccitensor ''ul'' pm = Inr mixed \<longleftrightarrow>
      (\<exists>metric a.
         (case pm of None \<Rightarrow> parent_metric riccitensor | Some m \<Rightarrow> Some m) = Some metric
         \<and> change_config_util E riccitensor metric ''ul'' = Inr a
         \<and> Tensor_init E a ''ul'' = None \<and> isinstance_list_tuple (syms riccitensor)
         \<and> mixed = \<lparr>arr = a, config = ''ul'', syms = syms riccitensor,
                     dims = len (syms riccitensor), order = 2,
                     parent_metric = Some metric\<rparr>)" for mixed
    by (auto simp: RicciTensor_change_config_eq_Inr RicciTensor_init_eq_Inr)
  show ?thesis
  proof
    assume ?lhs
    with False obtain mixed c where
      m: "RicciTensor_change_config E riccitensor ''ul'' pm = Inr mixed"
      and c: "tensorcontraction E (arr mixed) (0, 1) = Inr c" "isinstance_list_tuple (syms mixed)"
        "r = \<lparr>rs_order = 0,
              rs_parent_metric = (case pm of None \<Rightarrow> parent_metric mixed | Some m \<Rightarrow> Some m),
              expr = c, rs_syms = syms mixed, rs_dims = len (syms mixed)\<rparr>"
      by (auto simp: RicciScalar_from_riccitensor_def Let_def and_then_eq_Inr
            RicciScalar_init_eq_Inr)
    from m [unfolded conv] obtain metric a where
      ma: "(case pm of None \<Rightarrow> parent_metric riccitensor | Some m \<Rightarrow> Some m) = Some metric"
        "change_config_util E riccitensor metric ''ul'' = Inr a"
        "Tensor_init E a ''ul'' = None"
        "mixed = \<lparr>arr = a, config = ''ul'', syms = syms riccitensor,
                  dims = len (syms riccitensor), order = 2, parent_metric = Some metric\<rparr>"
      by blast
    from ma(4) have "config mixed = ''ul''" by simp
    with False m ma c show ?rhs by blast
  next
    assume ?rhs
    with False obtain mixed c where
      "RicciTensor_change_config E riccitensor ''ul'' pm = Inr mixed"
      "tensorcontraction E (arr mixed) (0, 1) = Inr c" "isinstance_list_tuple (syms mixed)"
      "r = \<lparr>rs_order = 0,
            rs_parent_metric = (case pm of None \<Rightarrow> parent_metric mixed | Some m \<Rightarrow> Some m),
            expr = c, rs_syms = syms mixed, rs_dims = len (syms mixed)\<rparr>"
      by blast
    with False show ?lhs
      by (simp add: RicciScalar_from_riccitensor_def Let_def RicciScalar_init_def)
  qed
qed

text \<open>
  The tensor \<open>((1, 2), (3, 4))\<close> under the metric \<open>((2, 1), (1, 1))\<close>. In configuration
  "ll" its first index is raised, to \<open>((-2, -2), (5, 6))\<close>, and the trace is 4; in
  configuration "ul" it is traced as it is, and the trace is 5.
\<close>

lemma sample_ricci_mixed:
  "RicciTensor_change_config plane_engine sample_ricci ''ul'' None = Inr sample_mixed"
  by code_simp

lemma sample_ricci_raised:
  "change_config_util plane_engine sample_ricci skew_metric ''ul'' = Inr (arr sample_mixed)"
  by code_simp

lemma sample_traces:
  "tensorcontraction plane_engine (arr sample_mixed) (0, 1) = Inr (Expr 4)"
  "tensorcontraction plane_engine (arr (sample_ricci\<lparr>config := ''ul''\<rparr>)) (0, 1) = Inr (Expr 5)"
  by code_simp+

theorem from_riccitensor_traces_witness:
  "RicciScalar_from_riccitensor plane_engine sample_ricci None =
     Inr \<lparr>rs_order = 0, rs_parent_metric = Some skew_metric, expr = Expr 4,
          rs_syms = SymTuple [''x'', ''y''], rs_dims = 2\<rparr>
   \<and> RicciScalar_from_riccitensor plane_engine (sample_ricci\<lparr>config := ''ul''\<rparr>) None =
     Inr \<lparr>rs_order = 0, rs_parent_metric = Some skew_metric, expr = Expr 5,
          rs_syms = SymTuple [''x'', ''y''], rs_dims = 2\<rparr>"
proof
  show "RicciScalar_from_riccitensor plane_engine sample_ricci None =
     Inr \<lparr>rs_order = 0, rs_parent_metric = Some skew_metric, expr = Expr 4,
          rs_syms = SymTuple [''x'', ''y''], rs_dims = 2\<rparr>"
    apply (rule from_riccitensor_traces [THEN iffD2])
    apply (rule exI [of _ sample_mixed])
    apply (simp only: sample_ricci_mixed sample_traces)
    apply (simp add: sample_ricci_def sample_mixed_def plane_engine_def flat_engine_def
        index_raising_lowering_def)
    apply code_simp
    done
  show "RicciScalar_from_riccitensor plane_engine (sample_ricci\<lparr>config := ''ul''\<rparr>) None =
     Inr \<lparr>rs_order = 0, rs_parent_metric = Some skew_metric, expr = Expr 5,
          rs_syms = SymTuple [''x'', ''y''], rs_dims = 2\<rparr>"
    apply (rule from_riccitensor_traces [THEN iffD2])
    apply (rule exI [of _ "sample_ricci\<lparr>config := ''ul''\<rparr>"])
    apply (simp only: sample_traces)
    apply (simp add: sample_ricci_def)
    done
qed


section \<open>The Ricci scalar is the trace of the Ricci tensor\<close>

lemma from_riccitensor_ll:
  assumes "config cg = ''ll''"
  shows "map_sum id expr (RicciScalar_from_riccitensor E cg None) =
         and_then (RicciTensor_change_config E cg ''ul'' None)
           (\<lambda>mixed. collab (tensorcontraction E (arr mixed) (0, 1)))"
proof (cases "RicciTensor_change_config E cg ''ul'' None")
  case (Inl e)
  with assms show ?thesis by (simp add: RicciScalar_from_riccitensor_def)
next
  case (Inr mixed)
  then have "isinstance_list_tuple (syms mixed)"
    by (auto simp: RicciTensor_change_config_eq_Inr RicciTensor_init_eq_Inr)
  with Inr assms show ?thesis
    by (cases "tensorcontraction E (arr mixed) (0, 1)")
       (simp_all add: RicciScalar_from_riccitensor_def RicciScalar_init_def)
qed

lemma from_riemann_config:
  "RicciTensor_from_riemann E rt pm = Inr cg \<Longrightarrow> config cg = ''ll''"
  by (auto simp: RicciTensor_from_riemann_def Let_def and_then_eq_Inr RicciTensor_init_eq_Inr)

lemma scalar_from_riemann:
  "map_sum id expr (RicciScalar_from_riemann E rt pm) =
   and_then (RicciTensor_from_riemann E rt pm) (\<lambda>t.
   and_then (RicciTensor_change_config E t ''ul'' None)
     (\<lambda>mixed. collab (tensorcontraction E (arr mixed) (0, 1))))"
proof (cases "RicciTensor_from_riemann E rt pm")
  case (Inl e)
  then show ?thesis by (simp add: RicciScalar_from_riemann_def)
next
  case (Inr cg)
  then show ?thesis
    by (simp add: RicciScalar_from_riemann_def from_riccitensor_ll [OF from_riemann_config [OF Inr]])
qed

text \<open>
  Claim C3. For every metric, the expression of \<open>RicciScalar.from_metric(metric)\<close> is
  the contraction over the axes (0, 1) of the array of
  \<open>RicciTensor.from_metric(metric).change_config("ul")\<close>; where one of the two
  derivations fails, the other fails with the same exception.
\<close>

theorem scalar_is_trace_of_tensor:
  "map_sum id expr (RicciScalar_from_metric E metric) =
   and_then (RicciTensor_from_metric E metric) (\<lambda>t.
   and_then (RicciTensor_change_config E t ''ul'' None)
     (\<lambda>mixed. collab (tensorcontraction E (arr mixed) (0, 1))))"
  by (simp add: RicciScalar_from_metric_def RicciScalar_from_christoffels_def
      RicciTensor_from_metric_def RicciTensor_from_christoffels_def
      map_sum_and_then and_then_assoc scalar_from_riemann)

text \<open>Both derivations on the metric \<open>diag(-1, 1, 1, 1)\<close>.\<close>

theorem scalar_is_trace_of_tensor_witness:
  "map_sum id expr (RicciScalar_from_metric flat_engine minkowski) = Inr (Expr 0)
   \<and> and_then (RicciTensor_from_metric flat_engine minkowski) (\<lambda>t.
       and_then (RicciTensor_change_config flat_engine t ''ul'' None)
         (\<lambda>mixed. collab (tensorcontraction flat_engine (arr mixed) (0, 1)))) = Inr (Expr 0)"
proof -
  have "map_sum id expr (RicciScalar_from_metric flat_engine minkowski) = Inr (Expr 0)"
    by code_simp
  with scalar_is_trace_of_tensor [of flat_engine minkowski] show ?thesis
    by (simp del: flat_engine_simps)
qed


section \<open>WeylTensor.from_metric: the decomposition\<close>

subsection \<open>The loop fills every cell\<close>

lemma cube_zeros4: "cube n (zeros4 n)"
  by (simp add: cube_def zeros4_def)

lemma cube_Weyl_table: "cube n (Weyl_table n R Ric Rs g)"
  by (simp add: cube_def Weyl_table_def)

lemma Weyl_table_nth:
  "i < n \<Longrightarrow> k < n \<Longrightarrow> l < n \<Longrightarrow> m < n \<Longrightarrow>
   Weyl_table n R Ric Rs g ! i ! k ! l ! m = Weyl_decomposition n R Ric Rs g i k l m"
  by (simp add: Weyl_table_def)

lemma cube_ext:
  assumes "cube n A" and "cube n B"
    and "\<And>i k l m. i < n \<Longrightarrow> k < n \<Longrightarrow> l < n \<Longrightarrow> m < n \<Longrightarrow> A ! i ! k ! l ! m = B ! i ! k ! l ! m"
  shows "A = B"
proof (rule nth_equalityI)
  show "length A = length B" using assms(1,2) by (simp add: cube_def)
  fix i assume "i < length A"
  then have i: "i < n" using assms(1) by (simp add: cube_def)
  show "A ! i = B ! i"
  proof (rule nth_equalityI)
    show "length (A ! i) = length (B ! i)" using assms(1,2) i by (simp add: cube_def)
    fix k assume "k < length (A ! i)"
    then have k: "k < n" using assms(1) i by (simp add: cube_def)
    show "A ! i ! k = B ! i ! k"
    proof (rule nth_equalityI)
      show "length (A ! i ! k) = length (B ! i ! k)" using assms(1,2) i k by (simp add: cube_def)
      fix l assume "l < length (A ! i ! k)"
      then have l: "l < n" using assms(1) i k by (simp add: cube_def)
      show "A ! i ! k ! l = B ! i ! k ! l"
      proof (rule nth_equalityI)
        show "length (A ! i ! k ! l) = length (B ! i ! k ! l)"
          using assms(1,2) i k l by (simp add: cube_def)
        fix m assume "m < length (A ! i ! k ! l)"
        then have "m < n" using assms(1) i k l by (simp add: cube_def)
        with i k l show "A ! i ! k ! l ! m = B ! i ! k ! l ! m" by (rule assms(3))
      qed
    qed
  qed
qed

lemma setitem4_cube:
  assumes "cube n C" and "i < n" and "k < n" and "l < n" and "m < n"
  shows "\<exists>C'. setitem4 C i k l m v = Inr C' \<and> cube n C' \<and>
           (\<forall>i' k' l' m'. i' < n \<longrightarrow> k' < n \<longrightarrow> l' < n \<longrightarrow> m' < n \<longrightarrow>
              C' ! i' ! k' ! l' ! m' =
                (if (i', k', l', m') = (i, k, l, m) then v else C ! i' ! k' ! l' ! m'))"
  using assms by (simp add: setitem4_def cube_def nth_list_update)


lemma unravel_less:
  assumes "0 < n" and "unravel n t = (i, k, l, m)"
  shows "i < n \<and> k < n \<and> l < n \<and> m < n"
  using assms by (auto simp: unravel_def)

lemma unravel_ravel:
  assumes "i < n" and "k < n" and "l < n" and "m < n"
  shows "unravel n (i + n * (k + n * (l + n * m))) = (i, k, l, m)"
proof -
  let ?t = "i + n * (k + n * (l + n * m))"
  have n: "0 < n" using assms(1) by simp
  have d1: "?t div n = k + n * (l + n * m)" using assms(1) by simp
  have d2: "?t div n ^ 2 = l + n * m"
  proof -
    have "?t div n ^ 2 = (?t div n) div n" by (simp add: power2_eq_square div_mult2_eq)
    then show ?thesis using d1 assms(2) by simp
  qed
  have d3: "?t div n ^ 3 = m"
  proof -
    have "?t div n ^ 3 = (?t div n ^ 2) div n"
      by (simp add: power3_eq_cube power2_eq_square div_mult2_eq)
    then show ?thesis using d2 assms(3) by simp
  qed
  have "?t mod n = i" using assms(1) by simp
  moreover have "(?t div n) mod n = k" using d1 assms(2) by simp
  moreover have "(?t div n ^ 2) mod n = l" using d2 assms(3) by simp
  moreover have "(?t div n ^ 3) mod n = m" using d3 assms(4) by simp
  ultimately show ?thesis by (simp add: unravel_def)
qed

lemma digit_less:
  assumes "a < n" and "b < M"
  shows "a + n * b < n * (M::nat)"
proof -
  have "a + n * b < n + n * b" using assms(1) by arith
  also have "\<dots> = n * Suc b" by simp
  also have "\<dots> \<le> n * M" using assms(2) by (intro mult_le_mono2) simp
  finally show ?thesis .
qed

lemma ravel_less:
  assumes "i < n" and "k < n" and "l < n" and "m < n"
  shows "i + n * (k + n * (l + n * m)) < (n::nat) ^ 4"
proof -
  have "i + n * (k + n * (l + n * m)) < n * (n * (n * n))"
    by (intro digit_less assms)
  then show ?thesis by (simp add: eval_nat_numeral)
qed

lemma unravel_surj:
  assumes "i < n" and "k < n" and "l < n" and "m < n"
  shows "(i, k, l, m) \<in> unravel n ` set [0 ..< n ^ 4]"
proof -
  have "i + n * (k + n * (l + n * m)) \<in> set [0 ..< n ^ 4]"
    using ravel_less [OF assms] by simp
  then have "unravel n (i + n * (k + n * (l + n * m))) \<in> unravel n ` set [0 ..< n ^ 4]"
    by (rule imageI)
  then show ?thesis by (simp only: unravel_ravel [OF assms])
qed

lemma Weyl_loop_cells:
  assumes n: "0 < n"
    and comp: "\<And>i k l m. i < n \<Longrightarrow> k < n \<Longrightarrow> l < n \<Longrightarrow> m < n \<Longrightarrow>
                 Weyl_component R Ric g rs n i k l m = Inr (F i k l m)"
  shows "cube n C \<Longrightarrow>
         \<exists>C'. Weyl_loop R Ric g rs n ts C = Inr C' \<and> cube n C' \<and>
           (\<forall>i k l m. i < n \<longrightarrow> k < n \<longrightarrow> l < n \<longrightarrow> m < n \<longrightarrow>
              C' ! i ! k ! l ! m =
                (if (i, k, l, m) \<in> unravel n ` set ts then F i k l m else C ! i ! k ! l ! m))"
proof (induction ts arbitrary: C)
  case Nil
  then show ?case by simp
next
  case (Cons t ts)
  obtain i k l m where u: "unravel n t = (i, k, l, m)"
    by (metis prod_cases4)
  from unravel_less [OF n u] have lt: "i < n" "k < n" "l < n" "m < n" by simp_all
  from setitem4_cube [OF Cons.prems lt, of "F i k l m"]
  obtain C1 where C1: "setitem4 C i k l m (F i k l m) = Inr C1" "cube n C1"
    and C1_cells: "\<And>i' k' l' m'. i' < n \<Longrightarrow> k' < n \<Longrightarrow> l' < n \<Longrightarrow> m' < n \<Longrightarrow>
       C1 ! i' ! k' ! l' ! m' =
         (if (i', k', l', m') = (i, k, l, m) then F i k l m else C ! i' ! k' ! l' ! m')"
    by blast
  from Cons.IH [OF C1(2)]
  obtain C' where C': "Weyl_loop R Ric g rs n ts C1 = Inr C'" "cube n C'"
    and C'_cells: "\<And>i' k' l' m'. i' < n \<Longrightarrow> k' < n \<Longrightarrow> l' < n \<Longrightarrow> m' < n \<Longrightarrow>
       C' ! i' ! k' ! l' ! m' =
         (if (i', k', l', m') \<in> unravel n ` set ts then F i' k' l' m' else C1 ! i' ! k' ! l' ! m')"
    by blast
  have run: "Weyl_loop R Ric g rs n (t # ts) C = Inr C'"
    using u comp [OF lt] C1(1) C'(1) by simp
  have cells: "C' ! i' ! k' ! l' ! m' =
      (if (i', k', l', m') \<in> unravel n ` set (t # ts) then F i' k' l' m' else C ! i' ! k' ! l' ! m')"
    if "i' < n" "k' < n" "l' < n" "m' < n" for i' k' l' m'
    using C'_cells [OF that] C1_cells [OF that] u by auto
  from run C'(2) cells show ?case by blast
qed

lemma Weyl_loop_table:
  assumes n: "0 < n"
    and comp: "\<And>i k l m. i < n \<Longrightarrow> k < n \<Longrightarrow> l < n \<Longrightarrow> m < n \<Longrightarrow>
                 Weyl_component Rcov Ric g rs n i k l m =
                   Inr (Weyl_decomposition n R P Rscalar G i k l m)"
  shows "Weyl_loop Rcov Ric g rs n [0 ..< n ^ 4] (zeros4 n) = Inr (Weyl_table n R P Rscalar G)"
proof -
  from Weyl_loop_cells [where F = "Weyl_decomposition n R P Rscalar G" and ts = "[0 ..< n ^ 4]",
      OF n comp cube_zeros4]
  obtain C' where C': "Weyl_loop Rcov Ric g rs n [0 ..< n ^ 4] (zeros4 n) = Inr C'" "cube n C'"
    and cells: "\<And>i k l m. i < n \<Longrightarrow> k < n \<Longrightarrow> l < n \<Longrightarrow> m < n \<Longrightarrow>
       C' ! i ! k ! l ! m =
         (if (i, k, l, m) \<in> unravel n ` set [0 ..< n ^ 4]
          then Weyl_decomposition n R P Rscalar G i k l m else zeros4 n ! i ! k ! l ! m)"
    by blast
  have "C' = Weyl_table n R P Rscalar G"
  proof (rule cube_ext [OF C'(2) cube_Weyl_table])
    fix i k l m assume lt: "i < n" "k < n" "l < n" "m < n"
    show "C' ! i ! k ! l ! m = Weyl_table n R P Rscalar G ! i ! k ! l ! m"
      using cells [OF lt] unravel_surj [OF lt] by (simp only: if_True Weyl_table_nth [OF lt])
  qed
  with C'(1) show ?thesis by simp
qed


lemma Weyl_component_eq:
  assumes n: "2 \<le> n"
    and R: "getitem Rcov [i, k, l, m] = Inr (R i k l m)"
    and P: "getitem ric [i, m] = Inr (P i m)" "getitem ric [i, l] = Inr (P i l)"
      "getitem ric [k, l] = Inr (P k l)" "getitem ric [k, m] = Inr (P k m)"
    and G: "getitem g [k, l] = Inr (G k l)" "getitem g [k, m] = Inr (G k m)"
      "getitem g [i, m] = Inr (G i m)" "getitem g [i, l] = Inr (G i l)"
  shows "Weyl_component Rcov ric g (Expr Rscalar) n i k l m =
           Inr (Weyl_decomposition n R P Rscalar G i k l m)"
proof -
  have a: "(of_int (int n - 2) :: 'a) = of_nat (n - 2)"
    using n by (simp add: of_nat_diff)
  have b: "(of_int ((int n - 1) * (int n - 2)) :: 'a) = of_nat ((n - 1) * (n - 2))"
    using n by (simp add: of_nat_diff)
  show ?thesis
    unfolding Weyl_component_def Weyl_decomposition_def a b
    by (simp add: R P G add.assoc)
qed


text \<open>
  Claim C2. Let the metric have dimension \<open>n > 3\<close>, let \<open>g\<close> be the metric itself, or
  its inverse if its configuration is "uu", of the same dimension; let the collaborators
  deliver the Riemann tensor, its form in configuration "llll", and let the Ricci tensor
  and the Ricci scalar be derived from the Riemann tensor as delivered; let \<open>R\<close>, \<open>Ric\<close>
  and \<open>G\<close> be the components of the covariant Riemann tensor, the Ricci tensor and \<open>g\<close>,
  and \<open>Rscalar\<close> the expression of the Ricci scalar. Then \<open>WeylTensor.from_metric\<close> returns
  the simplified array whose component at every index quadruple below \<open>n\<close> is given by
  the decomposition formula, with configuration "llll" and the input metric as parent
  metric (provided the symbols of the metric are a list or tuple and the base
  constructor accepts the array).
\<close>

theorem from_metric_decomposition:
  fixes E :: "('e::field_char_0, 'c) engine"
  assumes dim: "3 < dims metric"
    and cov: "if config metric = ''uu'' then Metric_inv E metric = Inr g else g = metric"
    and dim_cov: "dims g = dims metric"
    and riemann: "Riemann_from_metric E metric = Inr t_riemann"
    and riemann_cov: "Riemann_change_config E t_riemann ''llll'' None = Inr t_riemann_cov"
    and ricci: "RicciTensor_from_riemann E t_riemann None = Inr t_ricci"
    and scalar: "RicciScalar_from_riccitensor E t_ricci None = Inr r_scalar"
    and Rscalar: "expr r_scalar = Expr Rscalar"
    and R: "\<forall>i<dims metric. \<forall>k<dims metric. \<forall>l<dims metric. \<forall>m<dims metric.
              getitem (arr t_riemann_cov) [i, k, l, m] = Inr (R i k l m)"
    and Ric: "\<forall>i<dims metric. \<forall>m<dims metric. getitem (arr t_ricci) [i, m] = Inr (Ric i m)"
    and G: "\<forall>i<dims metric. \<forall>k<dims metric. getitem (arr g) [i, k] = Inr (G i k)"
    and seq: "isinstance_list_tuple (syms metric)"
    and init: "Tensor_init E (simplify E (Array4 (Weyl_table (dims metric) R Ric Rscalar G)))
                 ''llll'' = None"
  shows "WeylTensor_from_metric E metric =
           Inr \<lparr>arr = simplify E (Array4 (Weyl_table (dims metric) R Ric Rscalar G)),
                config = ''llll'', syms = syms metric, dims = len (syms metric), order = 4,
                parent_metric = Some metric\<rparr>"
proof -
  let ?n = "dims metric"
  have comp: "Weyl_component (arr t_riemann_cov) (arr t_ricci) (arr g) (expr r_scalar) ?n i k l m =
                Inr (Weyl_decomposition ?n R Ric Rscalar G i k l m)"
    if "i < ?n" "k < ?n" "l < ?n" "m < ?n" for i k l m
    unfolding Rscalar using dim that R Ric G by (intro Weyl_component_eq) simp_all
  have loop: "Weyl_loop (arr t_riemann_cov) (arr t_ricci) (arr g) (expr r_scalar) ?n
                [0 ..< ?n ^ 4] (zeros4 ?n) = Inr (Weyl_table ?n R Ric Rscalar G)"
    using dim by (intro Weyl_loop_table comp) simp_all
  have metric_cov:
    "(if config metric = ''uu'' then collab (Metric_inv E metric) else Inr metric) = Inr g"
    using cov by (simp split: if_splits)
  show ?thesis
    unfolding WeylTensor_from_metric_def
    by (simp only: dim if_True metric_cov riemann riemann_cov ricci scalar and_then_Inr
          collab_Inr Let_def dim_cov loop)
       (simp add: WeylTensor_init_def init seq)
qed


subsection \<open>The decomposition on the metric \<open>diag(-1, 1, 1, 1)\<close>\<close>

lemma getitem_zeros4:
  "i < n \<Longrightarrow> k < n \<Longrightarrow> l < n \<Longrightarrow> m < n \<Longrightarrow>
   getitem (zeros [n, n, n, n]) [i, k, l, m] = Inr 0"
  by simp

lemma getitem_zeros2: "i < n \<Longrightarrow> k < n \<Longrightarrow> getitem (zeros [n, n]) [i, k] = Inr 0"
  by simp

lemma getitem_diag:
  "i < length ds \<Longrightarrow> k < length ds \<Longrightarrow>
   getitem (diag ds) [i, k] = Inr (if i = k then ds ! i else 0)"
  by (simp add: diag_def)

lemma flat_minkowski_ricci:
  "RicciTensor_from_riemann flat_engine (flat_riemann minkowski None) None =
     Inr (flat_ricci minkowski ''ll'')"
  by code_simp

lemma flat_minkowski_scalar:
  "RicciScalar_from_riccitensor flat_engine (flat_ricci minkowski ''ll'') None =
     Inr \<lparr>rs_order = 0, rs_parent_metric = Some minkowski, expr = Expr 0,
          rs_syms = syms minkowski, rs_dims = 4\<rparr>"
  by code_simp

lemma flat_minkowski_table:
  "Array4 (Weyl_table 4 (\<lambda>i k l m. 0) (\<lambda>i m. 0) 0
     (\<lambda>i k. if i = k then [- 1, 1, 1, 1] ! i else 0)) = (zeros [4, 4, 4, 4] :: rat ndarr)"
  by code_simp


text \<open>
  All hypotheses hold for the metric \<open>diag(-1, 1, 1, 1)\<close> with vanishing curvature;
  every component of the table is then zero.
\<close>

theorem from_metric_decomposition_witness:
  "3 < dims minkowski
   \<and> WeylTensor_from_metric flat_engine minkowski =
       Inr \<lparr>arr = simplify flat_engine (Array4 (Weyl_table (dims minkowski)
                     (\<lambda>i k l m. 0) (\<lambda>i m. 0) 0
                     (\<lambda>i k. if i = k then [- 1, 1, 1, 1] ! i else 0))),
            config = ''llll'', syms = syms minkowski, dims = len (syms minkowski), order = 4,
            parent_metric = Some minkowski\<rparr>
   \<and> simplify flat_engine (Array4 (Weyl_table (dims minkowski)
                     (\<lambda>i k l m. 0) (\<lambda>i m. 0) 0
                     (\<lambda>i k. if i = k then [- 1, 1, 1, 1] ! i else 0)))
       = (zeros [4, 4, 4, 4] :: rat ndarr)"
proof -
  let ?g = "\<lambda>i k. if i = k then [- 1, 1, 1, 1] ! i else (0::rat)"
  have dim: "3 < dims minkowski" by (simp add: minkowski_def)
  have d4: "dims minkowski = 4" by (simp add: minkowski_def)
  have cov: "if config minkowski = ''uu'' then Metric_inv flat_engine minkowski = Inr minkowski
             else minkowski = minkowski"
    by (simp add: minkowski_def)
  have riemann_cov:
    "Riemann_change_config flat_engine (flat_riemann minkowski None) ''llll'' None =
       Inr ((flat_riemann minkowski None)\<lparr>config := ''llll''\<rparr>)"
    by (simp add: flat_engine_def flat_riemann_def)
  have R: "\<forall>i<dims minkowski. \<forall>k<dims minkowski. \<forall>l<dims minkowski. \<forall>m<dims minkowski.
             getitem (arr ((flat_riemann minkowski None)\<lparr>config := ''llll''\<rparr>)) [i, k, l, m]
               = Inr ((\<lambda>i k l m. 0::rat) i k l m)"
    by (simp add: flat_riemann_def getitem_zeros4 del: zeros.simps)
  have Ric: "\<forall>i<dims minkowski. \<forall>m<dims minkowski.
               getitem (arr (flat_ricci minkowski ''ll'')) [i, m] = Inr ((\<lambda>i m. 0::rat) i m)"
    by (simp add: flat_ricci_def getitem_zeros2 del: zeros.simps)
  have G: "\<forall>i<dims minkowski. \<forall>k<dims minkowski.
             getitem (arr minkowski) [i, k] = Inr (?g i k)"
    by (simp add: minkowski_def getitem_diag)
  have seq: "isinstance_list_tuple (syms minkowski)" by (simp add: minkowski_def)
  have table: "simplify flat_engine (Array4 (Weyl_table (dims minkowski)
                     (\<lambda>i k l m. 0) (\<lambda>i m. 0) 0 ?g)) = (zeros [4, 4, 4, 4] :: rat ndarr)"
    unfolding d4 flat_engine_simps by (rule flat_minkowski_table)
  from from_metric_decomposition [of minkowski flat_engine minkowski "flat_riemann minkowski None"
      "(flat_riemann minkowski None)\<lparr>config := ''llll''\<rparr>" "flat_ricci minkowski ''ll''"
      "\<lparr>rs_order = 0, rs_parent_metric = Some minkowski, expr = Expr 0,
          rs_syms = syms minkowski, rs_dims = 4\<rparr>" 0 "\<lambda>i k l m. 0" "\<lambda>i m. 0" ?g,
      OF dim cov refl _ riemann_cov flat_minkowski_ricci flat_minkowski_scalar _ R Ric G seq]
  have "WeylTensor_from_metric flat_engine minkowski =
       Inr \<lparr>arr = simplify flat_engine (Array4 (Weyl_table (dims minkowski)
                     (\<lambda>i k l m. 0) (\<lambda>i m. 0) 0 ?g)),
            config = ''llll'', syms = syms minkowski, dims = len (syms minkowski), order = 4,
            parent_metric = Some minkowski\<rparr>"
    by simp
  with dim table show ?thesis by blast
qed


section \<open>Round trip of a configuration change\<close>

lemma entry_tabulate2:
  "i < n \<Longrightarrow> j < n \<Longrightarrow> entry (tabulate [n, n] f) [i, j] = f [i, j]"
  by (simp add: entry_def)

lemma tabulate2_cong:
  assumes "\<And>i j. i < n \<Longrightarrow> j < n \<Longrightarrow> f [i, j] = g [i, j]"
  shows "tabulate [n, n] f = tabulate [n, n] g"
  using assms by simp

lemma shape_Array_upt:
  "shape (Array (map g [0 ..< Suc k])) = Suc k # shape (g 0)"
proof -
  have "[0 ..< Suc k] = 0 # [Suc 0 ..< Suc k]" by (rule upt_conv_Cons) simp
  then show ?thesis by simp
qed

lemma shape_tabulate2: "0 < n \<Longrightarrow> shape (tabulate [n, n] f) = [n, n]"
  by (cases n) (simp_all add: shape_Array_upt del: upt_Suc)

declare tabulate.simps [simp del]

lemma square_tabulate: "square n (tabulate [n, n] f)"
  unfolding square_def by (rule tabulate2_cong) (simp add: entry_tabulate2)

lemma square_shape:
  assumes "0 < n" and "square n T"
  shows "shape T = [n, n]"
proof -
  from assms(2) have "T = tabulate [n, n] (entry T)" by (simp only: square_def)
  then have "shape T = shape (tabulate [n, n] (entry T))" by (rule arg_cong)
  then show ?thesis by (simp only: shape_tabulate2 [OF assms(1)])
qed

lemma sum_list_upt: "sum_list (map f [0 ..< n]) = (\<Sum>b<n. f b)"
  by (simp add: interv_sum_list_conv_sum_set_nat atLeast0LessThan)

lemma change_index_0:
  assumes "0 < n" and "square n T"
  shows "change_index M T 0 = tabulate [n, n] (\<lambda>is. \<Sum>b<n. entry M [is ! 0, b] * entry T [b, is ! 1])"
proof -
  have sh: "shape T = [n, n]"
    using assms by (rule square_shape)
  show ?thesis
    unfolding change_index_def sh sum_list_upt
    by (rule tabulate2_cong) simp
qed

lemma change_index_1:
  assumes "0 < n" and "square n T"
  shows "change_index M T (Suc 0) = tabulate [n, n] (\<lambda>is. \<Sum>b<n. entry M [is ! 1, b] * entry T [is ! 0, b])"
proof -
  have sh: "shape T = [n, n]"
    using assms by (rule square_shape)
  show ?thesis
    unfolding change_index_def sh sum_list_upt
    by (rule tabulate2_cong) simp
qed

lemma square_change_index:
  assumes "0 < n" and "square n T" and "p < 2"
  shows "square n (change_index M T p)"
proof -
  from assms(3) have "p = 0 \<or> p = 1" by auto
  then show ?thesis
    using change_index_0 [OF assms(1,2)] change_index_1 [OF assms(1,2)]
    by (auto simp: square_tabulate)
qed

lemma inverse_arraysD:
  "inverse_arrays n A B \<Longrightarrow> i < n \<Longrightarrow> j < n \<Longrightarrow>
   (\<Sum>b<n. entry A [i, b] * entry B [b, j]) = (if i = j then 1 else 0)"
  by (simp add: inverse_arrays_def list_all_iff sum_list_upt)


lemma sum_inverse:
  fixes a b :: "nat \<Rightarrow> nat \<Rightarrow> 'e::field_char_0"
  assumes inv: "\<And>j. j < n \<Longrightarrow> (\<Sum>x<n. a i x * b x j) = (if i = j then 1 else 0)"
    and i: "i < n"
  shows "(\<Sum>x<n. a i x * (\<Sum>y<n. b x y * t y)) = t i"
proof -
  have "(\<Sum>x<n. a i x * (\<Sum>y<n. b x y * t y)) = (\<Sum>x<n. \<Sum>y<n. a i x * b x y * t y)"
    by (simp add: sum_distrib_left mult.assoc)
  also have "\<dots> = (\<Sum>y<n. \<Sum>x<n. a i x * b x y * t y)"
    by (rule sum.swap)
  also have "\<dots> = (\<Sum>y<n. (\<Sum>x<n. a i x * b x y) * t y)"
    by (simp add: sum_distrib_right)
  also have "\<dots> = (\<Sum>y<n. (if i = y then 1 else 0) * t y)"
    by (rule sum.cong) (simp_all add: inv)
  also have "\<dots> = (\<Sum>y<n. if y = i then t y else 0)"
    by (rule sum.cong) auto
  also have "\<dots> = t i"
    using i by (simp add: sum.delta)
  finally show ?thesis .
qed

lemma sum_commute:
  fixes a b :: "nat \<Rightarrow> 'e::field_char_0"
  shows "(\<Sum>x<n. a x * (\<Sum>y<m. b y * t x y)) = (\<Sum>y<m. b y * (\<Sum>x<n. a x * t x y))"
proof -
  have "(\<Sum>x<n. a x * (\<Sum>y<m. b y * t x y)) = (\<Sum>x<n. \<Sum>y<m. b y * (a x * t x y))"
    by (simp add: sum_distrib_left mult.left_commute)
  also have "\<dots> = (\<Sum>y<m. \<Sum>x<n. b y * (a x * t x y))"
    by (rule sum.swap)
  also have "\<dots> = (\<Sum>y<m. b y * (\<Sum>x<n. a x * t x y))"
    by (simp add: sum_distrib_left)
  finally show ?thesis .
qed

lemma square_eqI:
  assumes "square n T"
    and "\<And>i j. i < n \<Longrightarrow> j < n \<Longrightarrow> f [i, j] = entry T [i, j]"
  shows "tabulate [n, n] f = T"
proof -
  have "tabulate [n, n] f = tabulate [n, n] (entry T)"
    by (rule tabulate2_cong) (rule assms(2))
  also have "\<dots> = T" using assms(1) by (simp only: square_def)
  finally show ?thesis .
qed

lemma entry_change_index_0:
  assumes "0 < n" and "square n T" and "i < n" and "j < n"
  shows "entry (change_index M T 0) [i, j] = (\<Sum>b<n. entry M [i, b] * entry T [b, j])"
  by (simp add: change_index_0 [OF assms(1,2)] entry_tabulate2 [OF assms(3,4)])

lemma entry_change_index_1:
  assumes "0 < n" and "square n T" and "i < n" and "j < n"
  shows "entry (change_index M T (Suc 0)) [i, j] = (\<Sum>b<n. entry M [j, b] * entry T [i, b])"
  by (simp add: change_index_1 [OF assms(1,2)] entry_tabulate2 [OF assms(3,4)])

lemma change_index_0_inverse:
  assumes n: "0 < n" and T: "square n T" and inv: "inverse_arrays n A B"
  shows "change_index A (change_index B T 0) 0 = T"
proof -
  have sq: "square n (change_index B T 0)" using n T by (rule square_change_index) simp
  show ?thesis
    unfolding change_index_0 [OF n sq]
  proof (rule square_eqI [OF T])
    fix i j assume ij: "i < n" "j < n"
    have "(\<Sum>x<n. entry A [i, x] * entry (change_index B T 0) [x, j]) =
          (\<Sum>x<n. entry A [i, x] * (\<Sum>y<n. entry B [x, y] * entry T [y, j]))"
      by (rule sum.cong) (simp_all add: entry_change_index_0 [OF n T _ ij(2)])
    also have "\<dots> = entry T [i, j]"
      by (rule sum_inverse [where t = "\<lambda>y. entry T [y, j]"])
         (simp_all add: inverse_arraysD [OF inv ij(1)] ij)
    finally show "(\<Sum>b<n. entry A [[i, j] ! 0, b] * entry (change_index B T 0) [b, [i, j] ! 1]) =
          entry T [i, j]"
      by simp
  qed
qed

lemma change_index_1_inverse:
  assumes n: "0 < n" and T: "square n T" and inv: "inverse_arrays n A B"
  shows "change_index A (change_index B T (Suc 0)) (Suc 0) = T"
proof -
  have sq: "square n (change_index B T (Suc 0))" using n T by (rule square_change_index) simp
  show ?thesis
    unfolding change_index_1 [OF n sq]
  proof (rule square_eqI [OF T])
    fix i j assume ij: "i < n" "j < n"
    have "(\<Sum>x<n. entry A [j, x] * entry (change_index B T (Suc 0)) [i, x]) =
          (\<Sum>x<n. entry A [j, x] * (\<Sum>y<n. entry B [x, y] * entry T [i, y]))"
      by (rule sum.cong) (simp_all add: entry_change_index_1 [OF n T ij(1)])
    also have "\<dots> = entry T [i, j]"
      by (rule sum_inverse [where t = "\<lambda>y. entry T [i, y]"])
         (simp_all add: inverse_arraysD [OF inv ij(2)] ij)
    finally show "(\<Sum>b<n. entry A [[i, j] ! 1, b] * entry (change_index B T (Suc 0)) [[i, j] ! 0, b]) =
          entry T [i, j]"
      by simp
  qed
qed

lemma change_index_commute:
  assumes n: "0 < n" and T: "square n T"
  shows "change_index A (change_index B T (Suc 0)) 0 = change_index B (change_index A T 0) (Suc 0)"
proof -
  have sq1: "square n (change_index B T (Suc 0))" using n T by (rule square_change_index) simp
  have sq0: "square n (change_index A T 0)" using n T by (rule square_change_index) simp
  show ?thesis
    unfolding change_index_0 [OF n sq1] change_index_1 [OF n sq0]
  proof (rule tabulate2_cong)
    fix i j assume ij: "i < n" "j < n"
    have "(\<Sum>x<n. entry A [i, x] * entry (change_index B T (Suc 0)) [x, j]) =
          (\<Sum>x<n. entry A [i, x] * (\<Sum>y<n. entry B [j, y] * entry T [x, y]))"
      by (rule sum.cong) (simp_all add: entry_change_index_1 [OF n T _ ij(2)])
    also have "\<dots> = (\<Sum>y<n. entry B [j, y] * (\<Sum>x<n. entry A [i, x] * entry T [x, y]))"
      by (rule sum_commute)
    also have "\<dots> = (\<Sum>y<n. entry B [j, y] * entry (change_index A T 0) [i, y])"
      by (rule sum.cong) (simp_all add: entry_change_index_0 [OF n T ij(1)])
    finally show "(\<Sum>b<n. entry A [[i, j] ! 0, b] * entry (change_index B T (Suc 0)) [b, [i, j] ! 1]) =
          (\<Sum>b<n. entry B [[i, j] ! 1, b] * entry (change_index A T 0) [[i, j] ! 0, b])"
      by simp
  qed
qed


lemma upt_2: "[0 ..< 2] = [0, Suc 0]"
  by (simp add: numeral_2_eq_2)

lemma valid_config_nth:
  "valid_config cfg \<Longrightarrow> p < length cfg \<Longrightarrow> cfg ! p = CHR ''u'' \<or> cfg ! p = CHR ''l''"
  by (simp add: valid_config_def list_all_length)

lemma round_trip_arrays:
  fixes cov contra T :: "('e::field_char_0) ndarr"
  assumes n: "0 < n" and T: "square n T"
    and inv: "inverse_arrays n cov contra" "inverse_arrays n contra cov"
    and old: "valid_config old" "length old = 2"
    and new: "valid_config new" "length new = 2"
  shows "fold (\<lambda>p T. if old ! p = new ! p then T
                      else change_index (if old ! p = CHR ''u'' then contra else cov) T p)
           [0 ..< 2]
           (fold (\<lambda>p T. if new ! p = old ! p then T
                         else change_index (if new ! p = CHR ''u'' then contra else cov) T p)
              [0 ..< 2] T) = T"
proof -
  define F where "F p = (if new ! p = CHR ''u'' then contra else cov)" for p
  define B where "B p = (if old ! p = CHR ''u'' then contra else cov)" for p
  have inv_p: "inverse_arrays n (B p) (F p)" if "p < 2" "new ! p \<noteq> old ! p" for p
    using valid_config_nth [OF old(1), of p] valid_config_nth [OF new(1), of p] that old(2) new(2) inv
    by (auto simp: F_def B_def)
  have sq0: "square n (change_index (F 0) T 0)" using n T by (rule square_change_index) simp
  have back0: "change_index (B 0) (change_index (F 0) T 0) 0 = T" if "new ! 0 \<noteq> old ! 0"
    using n T by (rule change_index_0_inverse) (rule inv_p, simp, rule that)
  have back1: "change_index (B (Suc 0)) (change_index (F (Suc 0)) T (Suc 0)) (Suc 0) = T"
    if "new ! Suc 0 \<noteq> old ! Suc 0"
    using n T by (rule change_index_1_inverse) (rule inv_p, simp, rule that)
  have both: "change_index (B (Suc 0))
                (change_index (B 0)
                   (change_index (F (Suc 0)) (change_index (F 0) T 0) (Suc 0)) 0) (Suc 0) = T"
    if "new ! 0 \<noteq> old ! 0" "new ! Suc 0 \<noteq> old ! Suc 0"
  proof -
    have "change_index (B 0) (change_index (F (Suc 0)) (change_index (F 0) T 0) (Suc 0)) 0 =
          change_index (F (Suc 0)) (change_index (B 0) (change_index (F 0) T 0) 0) (Suc 0)"
      using n sq0 by (rule change_index_commute)
    also have "\<dots> = change_index (F (Suc 0)) T (Suc 0)"
      by (simp only: back0 [OF that(1)])
    finally show ?thesis by (simp only: back1 [OF that(2)])
  qed
  show ?thesis
    unfolding upt_2 F_def [symmetric] B_def [symmetric]
    using back0 back1 both by (auto simp: eq_commute [of "old ! _" "new ! _"])
qed

text \<open>
  Claim C9, for \<open>_change_config\<close> as the specification describes it. Let the Ricci
  tensor \<open>t\<close> hold an \<open>n\<times>n\<close> array and a configuration of two letters, let its parent
  metric be covariant or contravariant with an inverse, and let the base constructor
  accept. Then \<open>change_config\<close> to any configuration of two letters returns a tensor
  \<open>t1\<close> in that configuration, and \<open>change_config\<close> of \<open>t1\<close> back to the configuration of
  \<open>t\<close>, with the same metric, returns a tensor whose array is the array of \<open>t\<close>.
\<close>

theorem change_config_round_trip:
  fixes E :: "('e::field_char_0, 'c) engine"
  assumes util: "change_config_util E = index_raising_lowering (Metric_inv E)"
    and base: "\<And>a cfg. Tensor_init E a cfg = None"
    and parent: "parent_metric t = Some metric"
    and metric_config: "config metric = ''ll'' \<or> config metric = ''uu''"
    and metric_inv: "Metric_inv E metric = Inr metric'"
    and inverse: "inverse_arrays n (arr metric) (arr metric')"
      "inverse_arrays n (arr metric') (arr metric)"
    and n: "0 < n" and T: "square n (arr t)"
    and old: "valid_config (config t)" "length (config t) = 2"
    and new: "valid_config newconfig" "length newconfig = 2"
    and seq: "isinstance_list_tuple (syms t)"
  shows "\<exists>t1 t2. RicciTensor_change_config E t newconfig None = Inr t1
           \<and> RicciTensor_change_config E t1 (config t) None = Inr t2
           \<and> config t1 = newconfig \<and> config t2 = config t \<and> arr t2 = arr t"
proof -
  define cov where "cov = (if config metric = ''ll'' then arr metric else arr metric')"
  define contra where "contra = (if config metric = ''ll'' then arr metric' else arr metric)"
  have inv: "inverse_arrays n cov contra" "inverse_arrays n contra cov"
    using inverse by (simp_all add: cov_def contra_def)
  define fwd where "fwd = fold (\<lambda>p T. if newconfig ! p = config t ! p then T
       else change_index (if newconfig ! p = CHR ''u'' then contra else cov) T p) [0 ..< 2] (arr t)"
  define t1 where "t1 = \<lparr>arr = fwd, config = newconfig, syms = syms t, dims = len (syms t),
       order = 2, parent_metric = Some metric\<rparr>"
  define t2 where "t2 = \<lparr>arr = arr t, config = config t, syms = syms t, dims = len (syms t),
       order = 2, parent_metric = Some metric\<rparr>"
  have pair: "(if config metric = ''ll''
               then map_sum id (\<lambda>m'. (arr metric, arr m')) (Metric_inv E metric)
               else if config metric = ''uu''
               then map_sum id (\<lambda>m'. (arr m', arr metric)) (Metric_inv E metric)
               else Inl ''ValueError'') = Inr (cov, contra)"
    using metric_config by (auto simp: metric_inv cov_def contra_def)
  have util1: "change_config_util E t metric newconfig = Inr fwd"
    unfolding util index_raising_lowering_def pair
    by (simp add: old new fwd_def)
  have call1: "RicciTensor_change_config E t newconfig None = Inr t1"
    by (simp add: RicciTensor_change_config_def parent util1 RicciTensor_init_def base seq new t1_def)
  have way_back: "fold (\<lambda>p T. if config t ! p = newconfig ! p then T
       else change_index (if config t ! p = CHR ''u'' then contra else cov) T p) [0 ..< 2] fwd = arr t"
    unfolding fwd_def using n T inv old new by (rule round_trip_arrays)
  have util2: "change_config_util E t1 metric (config t) = Inr (arr t)"
    unfolding util index_raising_lowering_def pair
    by (simp add: old new t1_def way_back)
  have t1_fields: "parent_metric t1 = Some metric" "syms t1 = syms t"
    by (simp_all add: t1_def)
  have call2: "RicciTensor_change_config E t1 (config t) None = Inr t2"
    by (simp add: RicciTensor_change_config_def t1_fields util2 RicciTensor_init_def base seq
          old t2_def)
  from call1 call2 show ?thesis by (auto simp: t1_def t2_def)
qed

subsection \<open>The round trip on the metric \<open>((2, 1), (1, 1))\<close>\<close>

lemma plane_engine_simps:
  "change_config_util plane_engine = index_raising_lowering (Metric_inv plane_engine)"
  "Tensor_init plane_engine a cfg = None"
  by (simp_all add: plane_engine_def flat_engine_def)

lemma plane_engine_inv: "Metric_inv plane_engine skew_metric = Inr skew_inverse"
  by code_simp

lemma skew_inverse_arrays:
  "inverse_arrays 2 (arr skew_metric) (arr skew_inverse)"
  "inverse_arrays 2 (arr skew_inverse) (arr skew_metric)"
  by code_simp+

lemma sample_ricci_square: "square 2 (arr sample_ricci)"
  by code_simp

lemma sample_configs:
  "valid_config (config sample_ricci)" "length (config sample_ricci) = 2"
  "valid_config ''uu''" "length ''uu'' = 2"
  by code_simp+

lemma sample_raised:
  "RicciTensor_change_config plane_engine sample_ricci ''uu'' None =
     Inr \<lparr>arr = Array [Array [Expr 0, Expr (- 2)], Array [Expr (- 1), Expr 7]], config = ''uu'',
          syms = SymTuple [''x'', ''y''], dims = 2, order = 2,
          parent_metric = Some skew_metric\<rparr>"
  by code_simp

text \<open>Both indices of \<open>((1, 2), (3, 4))\<close> raised, to \<open>((0, -2), (-1, 7))\<close>, and lowered again.\<close>

theorem change_config_round_trip_witness:
  "\<exists>t1 t2. RicciTensor_change_config plane_engine sample_ricci ''uu'' None = Inr t1
     \<and> RicciTensor_change_config plane_engine t1 (config sample_ricci) None = Inr t2
     \<and> config t1 = ''uu'' \<and> config t2 = config sample_ricci \<and> arr t2 = arr sample_ricci
     \<and> arr t1 = Array [Array [Expr 0, Expr (- 2)], Array [Expr (- 1), Expr 7]]"
proof -
  have parent: "parent_metric sample_ricci = Some skew_metric"
    by (simp add: sample_ricci_def)
  have cfg: "config skew_metric = ''ll'' \<or> config skew_metric = ''uu''"
    by (simp add: skew_metric_def)
  have seq: "isinstance_list_tuple (syms sample_ricci)"
    by (simp add: sample_ricci_def)
  from change_config_round_trip [of plane_engine sample_ricci skew_metric skew_inverse 2 "''uu''",
      OF plane_engine_simps(1) plane_engine_simps(2) parent cfg plane_engine_inv
        skew_inverse_arrays _ sample_ricci_square sample_configs seq]
  obtain t1 t2 where
    "RicciTensor_change_config plane_engine sample_ricci ''uu'' None = Inr t1"
    "RicciTensor_change_config plane_engine t1 (config sample_ricci) None = Inr t2"
    "config t1 = ''uu''" "config t2 = config sample_ricci" "arr t2 = arr sample_ricci"
    by auto
  moreover from this(1) have "arr t1 = Array [Array [Expr 0, Expr (- 2)], Array [Expr (- 1), Expr 7]]"
    by (auto simp: sample_raised)
  ultimately show ?thesis by blast
qed

end
